theory Spec2Isabelle
  imports Complex_Main "HOL-Library.Char_ord" "HOL-Library.List_Lexorder"
begin

section \<open>Lead analyzer: data cleaning and aggregation\<close>

text \<open>
  A shallow embedding of \<^verbatim>\<open>src/lead_analyzer.py\<close> (class \<^verbatim>\<open>LeadAnalyzer\<close>).
  The program drives pandas; the embedding fixes the following reading of it.

  \<^item> A DataFrame is a list of rows; a row is a record of the eight columns the code
    names. Cells are dynamically typed, as in pandas: missing (\<open>NaN\<close>), missing
    datetime (\<open>NaT\<close>), string, number, timestamp (nanoseconds since the epoch).
  \<^item> Floating-point numbers are IEEE doubles, written as the real numbers they denote,
    with every operation rounded (\<open>double_round\<close>); overflow and infinite inputs are
    outside the model. Division by a zero count, which pandas answers with inf or NaN,
    is kept (type \<open>fval\<close>).
  \<^item> Strings are lists of 8-bit characters, and the strings modelled are ASCII: on them
    \<open>py_strip\<close>, \<open>py_title\<close> and the pattern are \<^verbatim>\<open>str.strip\<close>, \<^verbatim>\<open>str.title\<close> and the
    regular expression. (Python also strips and cases characters beyond ASCII, such
    as U+00A0.)
  \<^item> The dtype of a column is read off its cells: a column accepts \<^verbatim>\<open>.str\<close> when it
    is empty or holds a string (\<^verbatim>\<open>read_csv\<close> yields object dtype exactly then), and
    \<^verbatim>\<open>.dt\<close> when every cell is a timestamp or \<open>NaT\<close>.
  \<^item> \<^verbatim>\<open>pd.to_numeric\<close> and \<^verbatim>\<open>pd.to_datetime\<close> are library code; their action on one
    cell is a parameter (\<open>parsers\<close>).
  \<^item> In-place column updates (\<^verbatim>\<open>fillna(..., inplace=True)\<close>) update the frame, as
    in pandas 2 without copy-on-write.
  \<^item> DataFrames are objects on a heap; the analyzer holds references to them.
  \<^item> Console output is not modelled, except the message of a guard that prints and
    returns \<^verbatim>\<open>None\<close>.
\<close>

subsection \<open>Cells, rows, frames\<close>

datatype cell = NaN | NaT | Str string | Num real | Time int

record lead =
  lead_id :: cell
  name :: cell
  email :: cell
  phone :: cell
  source :: cell
  status :: cell
  lead_value :: cell
  date_added :: cell

type_synonym frame = "lead list"

definition isnull :: "cell \<Rightarrow> bool" where
  "isnull c = (c = NaN \<or> c = NaT)"

fun is_str :: "cell \<Rightarrow> bool" where
  "is_str (Str s) = True"
| "is_str c = False"

fun is_datetime :: "cell \<Rightarrow> bool" where
  "is_datetime NaT = True"
| "is_datetime (Time t) = True"
| "is_datetime c = False"

subsection \<open>Outcomes of a method call\<close>

text \<open>
  The exceptions the modelled statements raise. \<open>DateParseError\<close> stands for whatever
  \<^verbatim>\<open>pd.to_datetime\<close> raises on an entry it cannot read.
\<close>

datatype error = AttributeError | DateParseError | TypeError | ValueError | KeyError

text \<open>
  \<open>Returns v\<close>: the method ran to its end (or to \<^verbatim>\<open>return v\<close>);
  \<open>Prints m\<close>: a guard printed \<open>m\<close> and returned \<^verbatim>\<open>None\<close>;
  \<open>Raises e\<close>: an exception left the method.
\<close>

datatype 'a result = Returns 'a | Prints string | Raises error

subsection \<open>The analyzer object\<close>

record analyzer =
  csv_file :: string
  df :: "nat option"
  clean_df :: "nat option"
  heap :: "nat \<Rightarrow> frame"
  next_ref :: nat

definition init :: "string \<Rightarrow> analyzer" where
  "init path = \<lparr>csv_file = path, df = None, clean_df = None, heap = (\<lambda>_. []), next_ref = 0\<rparr>"

definition alloc :: "frame \<Rightarrow> analyzer \<Rightarrow> nat \<times> analyzer" where
  "alloc t a = (next_ref a, a\<lparr>heap := (heap a)(next_ref a := t), next_ref := Suc (next_ref a)\<rparr>)"

definition raw_table :: "analyzer \<Rightarrow> frame option" where
  "raw_table a = map_option (heap a) (df a)"

definition cleaned_table :: "analyzer \<Rightarrow> frame option" where
  "cleaned_table a = map_option (heap a) (clean_df a)"

text \<open>Every reference the analyzer holds was handed out by \<open>alloc\<close>.\<close>

definition wf :: "analyzer \<Rightarrow> bool" where
  "wf a = ((case df a of None \<Rightarrow> True | Some d \<Rightarrow> d < next_ref a) \<and>
           (case clean_df a of None \<Rightarrow> True | Some c \<Rightarrow> c < next_ref a))"

text \<open>
  \<^verbatim>\<open>load_data\<close>: the outcome of \<^verbatim>\<open>pd.read_csv(self.csv_file)\<close> is the argument
  (\<open>None\<close> when it raised; both \<^verbatim>\<open>except\<close> branches return \<^verbatim>\<open>False\<close>).
\<close>

definition load_data :: "frame option \<Rightarrow> analyzer \<Rightarrow> bool \<times> analyzer" where
  "load_data csv a =
     (case csv of
        None \<Rightarrow> (False, a)
      | Some t \<Rightarrow> (let (r, a') = alloc t a in (True, a'\<lparr>df := Some r\<rparr>)))"

subsection \<open>Python string methods (ASCII)\<close>

definition is_space :: "char \<Rightarrow> bool" where
  "is_space c = (let n = (of_char c :: nat) in (9 \<le> n \<and> n \<le> 13) \<or> (28 \<le> n \<and> n \<le> 32))"

definition is_lower :: "char \<Rightarrow> bool" where
  "is_lower c = (let n = (of_char c :: nat) in 97 \<le> n \<and> n \<le> 122)"

definition is_upper :: "char \<Rightarrow> bool" where
  "is_upper c = (let n = (of_char c :: nat) in 65 \<le> n \<and> n \<le> 90)"

definition is_digit :: "char \<Rightarrow> bool" where
  "is_digit c = (let n = (of_char c :: nat) in 48 \<le> n \<and> n \<le> 57)"

definition to_upper :: "char \<Rightarrow> char" where
  "to_upper c = (if is_lower c then char_of ((of_char c :: nat) - 32) else c)"

definition to_lower :: "char \<Rightarrow> char" where
  "to_lower c = (if is_upper c then char_of ((of_char c :: nat) + 32) else c)"

definition py_strip :: "string \<Rightarrow> string" where
  "py_strip s = rev (dropWhile is_space (rev (dropWhile is_space s)))"

text \<open>
  \<^verbatim>\<open>str.title\<close>: a cased character is upper-cased after an uncased one (or at the
  start) and lower-cased after a cased one.
\<close>

fun title_from :: "bool \<Rightarrow> string \<Rightarrow> string" where
  "title_from prev [] = []"
| "title_from prev (c # cs) =
     (if is_lower c then (if prev then c else to_upper c) # title_from True cs
      else if is_upper c then (if prev then to_lower c else c) # title_from True cs
      else c # title_from False cs)"

definition py_title :: "string \<Rightarrow> string" where
  "py_title s = title_from False s"

subsection \<open>The e-mail pattern\<close>

text \<open>
  \<^verbatim>\<open>^[a-zA-Z0-9._%+-]+@[a-zA-Z0-9.-]+\.[a-zA-Z]{2,}$\<close>, applied with \<^verbatim>\<open>re.match\<close>.
  \<open>full_match t\<close> says that \<open>t\<close> splits as local part, \<open>@\<close>, domain, dot, letters;
  Python's \<^verbatim>\<open>$\<close> also matches just before a newline that ends the string.
\<close>

definition is_alpha :: "char \<Rightarrow> bool" where
  "is_alpha c = (is_lower c \<or> is_upper c)"

definition local_char :: "char \<Rightarrow> bool" where
  "local_char c = (is_alpha c \<or> is_digit c \<or> c \<in> set ''._%+-'')"

definition domain_char :: "char \<Rightarrow> bool" where
  "domain_char c = (is_alpha c \<or> is_digit c \<or> c \<in> set ''.-'')"

definition split_ok :: "string \<Rightarrow> nat \<Rightarrow> nat \<Rightarrow> bool" where
  "split_ok t i j =
     (let l = take i t; d = take (j - Suc i) (drop (Suc i) t); tld = drop (Suc j) t
      in l \<noteq> [] \<and> list_all local_char l \<and> t ! i = CHR ''@'' \<and>
         d \<noteq> [] \<and> list_all domain_char d \<and> t ! j = CHR ''.'' \<and>
         2 \<le> length tld \<and> list_all is_alpha tld)"

definition full_match :: "string \<Rightarrow> bool" where
  "full_match t = list_ex (\<lambda>i. list_ex (\<lambda>j. split_ok t i j) [Suc i..<length t]) [0..<length t]"

definition email_match :: "string \<Rightarrow> bool" where
  "email_match s = (full_match s \<or> (s \<noteq> [] \<and> last s = CHR 0x0A \<and> full_match (butlast s)))"

subsection \<open>Cleaning\<close>

record parsers =
  to_numeric :: "string \<Rightarrow> real option"
  to_datetime :: "cell \<Rightarrow> int option option"

text \<open>
  \<open>to_numeric P s\<close>: the number \<^verbatim>\<open>pd.to_numeric\<close> reads from the string \<open>s\<close>, \<open>None\<close>
  when it cannot (then \<^verbatim>\<open>errors='coerce'\<close> gives NaN).
  \<open>to_datetime P c\<close>: what \<^verbatim>\<open>pd.to_datetime\<close> makes of a cell that is not missing:
  \<open>None\<close> when it raises, \<open>Some None\<close> for \<open>NaT\<close>, \<open>Some (Some t)\<close> for a timestamp.
\<close>

definition fillna :: "cell \<Rightarrow> cell \<Rightarrow> cell" where
  "fillna v c = (if isnull c then v else c)"

definition str_accessor_ok :: "cell list \<Rightarrow> bool" where
  "str_accessor_ok col = (col = [] \<or> list_ex is_str col)"

text \<open>A \<^verbatim>\<open>.str\<close> method maps strings and leaves every other entry missing.\<close>

fun str_map :: "(string \<Rightarrow> string) \<Rightarrow> cell \<Rightarrow> cell" where
  "str_map f (Str s) = Str (f s)"
| "str_map f c = NaN"

text \<open>\<^verbatim>\<open>~col.str.match(email_pattern, na=False)\<close> on one cell.\<close>

fun invalid_email :: "cell \<Rightarrow> bool" where
  "invalid_email (Str s) = (\<not> email_match s)"
| "invalid_email c = True"

definition convert_date :: "parsers \<Rightarrow> cell \<Rightarrow> cell option" where
  "convert_date P c =
     (if isnull c then Some NaT
      else (case to_datetime P c of
              None \<Rightarrow> None
            | Some None \<Rightarrow> Some NaT
            | Some (Some t) \<Rightarrow> Some (Time t)))"

text \<open>\<^verbatim>\<open>pd.to_numeric(col, errors='coerce').fillna(0)\<close> on one cell.\<close>

fun coerce_numeric :: "parsers \<Rightarrow> cell \<Rightarrow> cell" where
  "coerce_numeric P (Num r) = Num r"
| "coerce_numeric P (Str s) = (case to_numeric P s of Some r \<Rightarrow> Num r | None \<Rightarrow> Num 0)"
| "coerce_numeric P c = Num 0"

definition fill_missing :: "frame \<Rightarrow> frame" where
  "fill_missing t =
     map (\<lambda>r. r\<lparr>lead_value := fillna (Num 0) (lead_value r)\<rparr>)
       (map (\<lambda>r. r\<lparr>email := fillna (Str ''Not provided'') (email r)\<rparr>)
          (map (\<lambda>r. r\<lparr>phone := fillna (Str ''Not provided'') (phone r)\<rparr>) t))"

definition standardize_source :: "frame \<Rightarrow> frame" where
  "standardize_source t = map (\<lambda>r. r\<lparr>source := str_map py_title (str_map py_strip (source r))\<rparr>) t"

definition standardize_status :: "frame \<Rightarrow> frame" where
  "standardize_status t = map (\<lambda>r. r\<lparr>status := str_map py_title (str_map py_strip (status r))\<rparr>) t"

definition standardize_name :: "frame \<Rightarrow> frame" where
  "standardize_name t = map (\<lambda>r. r\<lparr>name := str_map py_strip (name r)\<rparr>) t"

definition validate_emails :: "frame \<Rightarrow> frame" where
  "validate_emails t =
     map (\<lambda>r. if invalid_email (email r) then r\<lparr>email := Str ''Invalid email''\<rparr> else r) t"

definition parse_dates :: "parsers \<Rightarrow> frame \<Rightarrow> frame option" where
  "parse_dates P t =
     (if list_all (\<lambda>r. convert_date P (date_added r) \<noteq> None) t
      then Some (map (\<lambda>r. r\<lparr>date_added := the (convert_date P (date_added r))\<rparr>) t)
      else None)"

definition coerce_values :: "parsers \<Rightarrow> frame \<Rightarrow> frame" where
  "coerce_values P t = map (\<lambda>r. r\<lparr>lead_value := coerce_numeric P (lead_value r)\<rparr>) t"

text \<open>
  The body of \<^verbatim>\<open>clean_data\<close> after the copy, on the copied frame. The second
  component is the frame as the steps have left it: complete after \<open>Returns\<close>, rewritten
  up to the failing statement after \<open>Raises\<close>.
\<close>

definition clean_frame :: "parsers \<Rightarrow> frame \<Rightarrow> unit result \<times> frame" where
  "clean_frame P t0 =
     (let t1 = fill_missing t0 in
      if \<not> str_accessor_ok (map source t1) then (Raises AttributeError, t1) else
      let t2 = standardize_source t1 in
      if \<not> str_accessor_ok (map status t2) then (Raises AttributeError, t2) else
      let t3 = standardize_status t2 in
      if \<not> str_accessor_ok (map name t3) then (Raises AttributeError, t3) else
      let t4 = standardize_name t3 in
      if \<not> str_accessor_ok (map email t4) then (Raises AttributeError, t4) else
      let t5 = validate_emails t4 in
      (case parse_dates P t5 of
         None \<Rightarrow> (Raises DateParseError, t5)
       | Some t6 \<Rightarrow> (Returns (), coerce_values P t6)))"

text \<open>
  \<^verbatim>\<open>clean_data\<close>: the guard, then \<^verbatim>\<open>self.clean_df = self.df.copy()\<close> (a new object),
  then the steps, which update that object.
\<close>

definition clean_data :: "parsers \<Rightarrow> analyzer \<Rightarrow> unit result \<times> analyzer" where
  "clean_data P a =
     (case df a of
        None \<Rightarrow> (Prints ''Please load data first'', a)
      | Some d \<Rightarrow>
          (let (c, a1) = alloc (heap a d) a;
               a2 = a1\<lparr>clean_df := Some c\<rparr>;
               (res, t) = clean_frame P (heap a2 c)
           in (res, a2\<lparr>heap := (heap a2)(c := t)\<rparr>)))"

subsection \<open>Floating-point numbers\<close>

text \<open>
  A Python \<^verbatim>\<open>float\<close> and an entry of a \<^verbatim>\<open>float64\<close> column are IEEE doubles; the model
  writes a double as the real number it denotes. \<open>double_round x\<close> is the double
  nearest to \<open>x\<close>: significand of 53 bits, ties to the even significand, spacing
  \<open>2^-1074\<close> below \<open>2^-1022\<close>. An arithmetic operation on doubles is the exact
  operation followed by \<open>double_round\<close>. Overflow to infinity is outside the model.
  \<open>exponent x\<close> is the \<open>e\<close> with \<open>2^e \<le> |x| < 2^(e+1)\<close> (\<open>exponent_bounds\<close> below).
\<close>

definition rint :: "real \<Rightarrow> int" where
  "rint x =
     (let f = \<lfloor>x\<rfloor>; d = x - of_int f
      in if d < 1 / 2 then f else if 1 / 2 < d then f + 1 else if even f then f else f + 1)"

definition pow2 :: "int \<Rightarrow> real" where
  "pow2 e = (if 0 \<le> e then 2 ^ nat e else 1 / 2 ^ nat (- e))"

function log2_up :: "real \<Rightarrow> int" where
  "log2_up x = (if x < 2 then 0 else 1 + log2_up (x / 2))"
  by pat_completeness auto
termination
proof (relation "measure (\<lambda>x. nat \<lfloor>x\<rfloor>)")
  show "Wellfounded.wf (measure (\<lambda>x::real. nat \<lfloor>x\<rfloor>))" by simp
next
  fix x :: real assume "\<not> x < 2"
  then have "\<lfloor>x / 2\<rfloor> < \<lfloor>x\<rfloor>" "0 < \<lfloor>x\<rfloor>" by linarith+
  then show "(x / 2, x) \<in> measure (\<lambda>x. nat \<lfloor>x\<rfloor>)" by simp
qed

function log2_down :: "real \<Rightarrow> int" where
  "log2_down x = (if x \<le> 0 \<or> 1 \<le> x then 0 else log2_down (2 * x) - 1)"
  by pat_completeness auto
termination
proof (relation "measure (\<lambda>x. nat \<lfloor>1 / x\<rfloor>)")
  show "Wellfounded.wf (measure (\<lambda>x::real. nat \<lfloor>1 / x\<rfloor>))" by simp
next
  fix x :: real assume "\<not> (x \<le> 0 \<or> 1 \<le> x)"
  then have x: "0 < x" "x < 1" by auto
  define y where "y = 1 / x"
  from x have y: "1 < y" by (simp add: y_def)
  have h: "1 / (2 * x) = y / 2" by (simp add: y_def)
  from y have f: "1 \<le> \<lfloor>y\<rfloor>" by linarith
  then have "y / 2 < of_int \<lfloor>y\<rfloor>" by linarith
  with f have "\<lfloor>y / 2\<rfloor> < \<lfloor>y\<rfloor>" "0 < \<lfloor>y\<rfloor>"
    by (simp_all add: floor_less_iff)
  then have "\<lfloor>1 / (2 * x)\<rfloor> < \<lfloor>1 / x\<rfloor>" "0 < \<lfloor>1 / x\<rfloor>"
    unfolding h by (simp_all add: y_def)
  then show "(2 * x, x) \<in> measure (\<lambda>x. nat \<lfloor>1 / x\<rfloor>)" by simp
qed

declare log2_up.simps [simp del] log2_down.simps [simp del]

definition exponent :: "real \<Rightarrow> int" where
  "exponent x = (if 1 \<le> \<bar>x\<bar> then log2_up \<bar>x\<bar> else log2_down \<bar>x\<bar>)"

definition double_round :: "real \<Rightarrow> real" where
  "double_round x =
     (if x = 0 then 0
      else (let e = max (exponent x) (- 1022) - 52
            in of_int (rint (x / pow2 e)) * pow2 e))"

text \<open>
  A quotient by a count: pandas answers a zero count with inf or NaN, not with an
  exception.
\<close>

datatype fval = Fin real | PosInf | NegInf | NotANumber

definition fdiv :: "real \<Rightarrow> nat \<Rightarrow> fval" where
  "fdiv x n =
     (if n = 0 then (if x = 0 then NotANumber else if 0 < x then PosInf else NegInf)
      else Fin (double_round (x / real n)))"

fun fmap :: "(real \<Rightarrow> real) \<Rightarrow> fval \<Rightarrow> fval" where
  "fmap f (Fin x) = Fin (f x)"
| "fmap f v = v"

definition times100 :: "real \<Rightarrow> real" where
  "times100 x = double_round (x * 100)"

text \<open>
  \<^verbatim>\<open>.round(2)\<close> on a \<^verbatim>\<open>float64\<close> column, as numpy does it: times 100, to the nearest
  integer (halves to the even one), divided by 100.
\<close>

definition round2 :: "real \<Rightarrow> real" where
  "round2 x = double_round (of_int (rint (double_round (x * 100))) / 100)"

text \<open>
  The sum of a group of a \<^verbatim>\<open>float64\<close> column (\<^verbatim>\<open>group_sum\<close> of pandas): compensated
  summation, with the running sum and the compensation as arguments.
\<close>

fun kahan_sum :: "real \<Rightarrow> real \<Rightarrow> real list \<Rightarrow> real" where
  "kahan_sum sumx compensation [] = sumx"
| "kahan_sum sumx compensation (v # vs) =
     (let y = double_round (v - compensation);
          t = double_round (sumx + y);
          compensation' = double_round (double_round (t - sumx) - y)
      in kahan_sum t compensation' vs)"

text \<open>The sum of a group of an object column of numbers: one addition after the other.\<close>

definition float_add :: "real \<Rightarrow> real \<Rightarrow> real" where
  "float_add x y = double_round (x + y)"

definition python_sum :: "real list \<Rightarrow> real" where
  "python_sum vs = foldl float_add 0 vs"

subsection \<open>Grouping\<close>

text \<open>
  \<^verbatim>\<open>groupby\<close> drops the rows whose key is missing and lists the groups by ascending
  key. After the standardisation step a \<open>source\<close> or \<open>status\<close> cell is a string or
  missing (\<open>str_map\<close>), so the keys of these columns are strings.
\<close>

fun str_key :: "cell \<Rightarrow> string option" where
  "str_key (Str s) = Some s"
| "str_key c = None"

fun time_key :: "(int \<Rightarrow> int) \<Rightarrow> cell \<Rightarrow> int option" where
  "time_key f (Time t) = Some (f t)"
| "time_key f c = None"

definition group_keys :: "('r \<Rightarrow> 'k option) \<Rightarrow> 'r list \<Rightarrow> ('k::linorder) list" where
  "group_keys key t = sort (remdups (List.map_filter key t))"

definition groupby :: "('r \<Rightarrow> 'k option) \<Rightarrow> 'r list \<Rightarrow> (('k::linorder) \<times> 'r list) list" where
  "groupby key t = map (\<lambda>k. (k, filter (\<lambda>r. key r = Some k) t)) (group_keys key t)"

text \<open>The rows that are in some group.\<close>

definition grouped_rows :: "('r \<Rightarrow> 'k option) \<Rightarrow> 'r list \<Rightarrow> 'r list" where
  "grouped_rows key t = filter (\<lambda>r. key r \<noteq> None) t"

text \<open>
  A \<open>lead_value\<close> column that still holds a string has object dtype (only a table that
  \<^verbatim>\<open>clean_data\<close> left half-way has one). A group with a string in it has no numeric
  sum: the aggregation, or the division of the sums, raises. The other groups are
  summed entry by entry, and \<^verbatim>\<open>.round\<close> leaves an object column as it is.
\<close>

definition object_values :: "frame \<Rightarrow> bool" where
  "object_values t = list_ex (\<lambda>r. is_str (lead_value r)) t"

text \<open>The three aggregates of \<^verbatim>\<open>.agg\<close>: \<^verbatim>\<open>count\<close> counts the entries that are not missing.\<close>

definition count_ids :: "frame \<Rightarrow> nat" where
  "count_ids g = length (filter (\<lambda>r. \<not> isnull (lead_id r)) g)"

fun num_value :: "cell \<Rightarrow> real option" where
  "num_value (Num x) = Some x"
| "num_value c = None"

definition sum_values :: "bool \<Rightarrow> frame \<Rightarrow> real" where
  "sum_values obj g =
     (let vs = List.map_filter (\<lambda>r. num_value (lead_value r)) g
      in if obj then python_sum vs else kahan_sum 0 0 vs)"

definition count_converted :: "frame \<Rightarrow> nat" where
  "count_converted g = length (filter (\<lambda>r. status r = Str ''Converted'') g)"

text \<open>
  \<^verbatim>\<open>sort_values(col, ascending=False)\<close>. pandas does not fix the order of rows with
  equal values; the model keeps them in their previous order.
\<close>

definition sort_desc :: "('a \<Rightarrow> real) \<Rightarrow> 'a list \<Rightarrow> 'a list" where
  "sort_desc f xs = sort_key (\<lambda>x. - f x) xs"

subsection \<open>Aggregations\<close>

text \<open>
  \<^verbatim>\<open>calculate_conversion_rate\<close>: \<^verbatim>\<open>converted / total\<close> is the correctly rounded quotient
  of two Python integers, \<^verbatim>\<open>* 100\<close> a product of doubles.
\<close>

definition calculate_conversion_rate :: "analyzer \<Rightarrow> real result" where
  "calculate_conversion_rate a =
     (case clean_df a of
        None \<Rightarrow> Prints ''Please clean data first''
      | Some c \<Rightarrow>
          (let total = length (heap a c);
               converted = length (filter (\<lambda>r. status r = Str ''Converted'') (heap a c));
               rate = (if total > 0
                       then double_round (double_round (real converted / real total) * 100)
                       else 0)
           in Returns rate))"

text \<open>A row of \<^verbatim>\<open>source_stats\<close>; \<open>source_key\<close> is its index label.\<close>

record source_stat =
  source_key :: string
  total_leads :: nat
  total_value :: real
  conversions :: nat
  conversion_rate :: fval
  avg_lead_value :: fval

text \<open>\<open>obj\<close>: the \<open>lead_value\<close> column has object dtype.\<close>

definition source_stat_of :: "bool \<Rightarrow> string \<times> frame \<Rightarrow> source_stat" where
  "source_stat_of obj kg =
     (let g = snd kg; n = count_ids g; v = sum_values obj g; c = count_converted g
      in \<lparr>source_key = fst kg, total_leads = n, total_value = v, conversions = c,
          conversion_rate = fmap round2 (fmap times100 (fdiv (real c) n)),
          avg_lead_value = (if obj then fdiv v n else fmap round2 (fdiv v n))\<rparr>)"

text \<open>
  \<^verbatim>\<open>analyze_by_source\<close>. \<^verbatim>\<open>idxmax\<close> raises on an empty column; on a column of NaN
  only it answers NaN, which \<^verbatim>\<open>.loc\<close> does not find.
\<close>

definition analyze_by_source :: "analyzer \<Rightarrow> source_stat list result" where
  "analyze_by_source a =
     (case clean_df a of
        None \<Rightarrow> Prints ''Please clean data first''
      | Some c \<Rightarrow>
          (let t = heap a c;
               groups = groupby (\<lambda>r. str_key (source r)) t
           in if object_values (grouped_rows (\<lambda>r. str_key (source r)) t) then Raises TypeError
              else
                (let source_stats =
                       sort_desc total_value (map (source_stat_of (object_values t)) groups)
                 in if source_stats = [] then Raises ValueError
                    else if list_all (\<lambda>s. conversion_rate s = NotANumber) source_stats
                    then Raises KeyError
                    else Returns source_stats)))"

text \<open>
  \<^verbatim>\<open>value_counts\<close>: the values that are not missing, in order of first appearance,
  with their counts, sorted by descending count.
\<close>

definition first_seen :: "'a list \<Rightarrow> 'a list" where
  "first_seen xs = rev (remdups (rev xs))"

definition value_counts :: "cell list \<Rightarrow> (string \<times> nat) list" where
  "value_counts col =
     (let ks = List.map_filter str_key col
      in sort_desc (\<lambda>kn. real (snd kn)) (map (\<lambda>k. (k, count_list ks k)) (first_seen ks)))"

record status_stat =
  status_key :: string
  Count :: nat
  Percentage :: real

text \<open>
  \<^verbatim>\<open>(status_counts / len(self.clean_df) * 100).round(2)\<close> for one count; \<open>rows\<close> is the
  number of all rows of the cleaned table (there is a count only if there is a row).
\<close>

definition percentage :: "nat \<Rightarrow> nat \<Rightarrow> real" where
  "percentage n rows = round2 (times100 (double_round (real n / real rows)))"

definition status_stat_of :: "nat \<Rightarrow> string \<times> nat \<Rightarrow> status_stat" where
  "status_stat_of rows kn =
     \<lparr>status_key = fst kn, Count = snd kn, Percentage = percentage (snd kn) rows\<rparr>"

definition analyze_by_status :: "analyzer \<Rightarrow> status_stat list result" where
  "analyze_by_status a =
     (case clean_df a of
        None \<Rightarrow> Prints ''Please clean data first''
      | Some c \<Rightarrow>
          (let t = heap a c;
               status_counts = value_counts (map status t)
           in Returns (map (status_stat_of (length t)) status_counts)))"

text \<open>
  Rows of the trend tables; \<open>period\<close> is the index (day number, or number of the week
  Monday to Sunday, counted from the epoch), \<open>period_value\<close> is column \<^verbatim>\<open>total_value\<close>,
  \<open>period_conversions\<close> is \<^verbatim>\<open>conversions\<close>, \<open>daily_rate\<close> is \<^verbatim>\<open>conversion_rate\<close>.
\<close>

record trend_stat =
  period :: int
  leads_added :: nat
  period_value :: real
  period_conversions :: nat

record daily_stat = trend_stat +
  daily_rate :: fval

definition day_of :: "int \<Rightarrow> int" where
  "day_of ts = ts div 86400000000000"

definition week_of :: "int \<Rightarrow> int" where
  "week_of ts = (day_of ts + 3) div 7"

definition weekly_stat_of :: "bool \<Rightarrow> int \<times> frame \<Rightarrow> trend_stat" where
  "weekly_stat_of obj kg =
     \<lparr>period = fst kg, leads_added = count_ids (snd kg),
      period_value = sum_values obj (snd kg),
      period_conversions = count_converted (snd kg)\<rparr>"

definition daily_stat_of :: "bool \<Rightarrow> int \<times> frame \<Rightarrow> daily_stat" where
  "daily_stat_of obj kg =
     \<lparr>period = fst kg, leads_added = count_ids (snd kg),
      period_value = sum_values obj (snd kg),
      period_conversions = count_converted (snd kg),
      daily_rate = fmap round2 (fmap times100
                     (fdiv (real (count_converted (snd kg))) (count_ids (snd kg))))\<rparr>"

text \<open>
  \<^verbatim>\<open>analyze_trends\<close>. A table whose \<open>date_added\<close> column passes the \<^verbatim>\<open>.dt\<close> test was
  cleaned to the end and holds numbers only in \<open>lead_value\<close>; the test for a string in
  a group is there for the tables \<^verbatim>\<open>clean_data\<close> cannot leave.
\<close>

definition analyze_trends :: "analyzer \<Rightarrow> (daily_stat list \<times> trend_stat list) result" where
  "analyze_trends a =
     (case clean_df a of
        None \<Rightarrow> Prints ''Please clean data first''
      | Some c \<Rightarrow>
          (let t = heap a c
           in if \<not> list_all (\<lambda>r. is_datetime (date_added r)) t then Raises AttributeError
              else
                (let days = groupby (\<lambda>r. time_key day_of (date_added r)) t;
                     weeks = groupby (\<lambda>r. time_key week_of (date_added r)) t
                 in if object_values (grouped_rows (\<lambda>r. time_key day_of (date_added r)) t)
                    then Raises TypeError
                    else Returns (map (daily_stat_of (object_values t)) days,
                                  map (weekly_stat_of (object_values t)) weeks))))"

subsection \<open>The effect of cleaning on one row\<close>

text \<open>
  All steps of \<^verbatim>\<open>clean_data\<close> work column by column and keep the index, so their
  composition acts row by row. \<open>clean_row\<close> is the effect of a call that returns;
  \<open>half_row\<close> is the effect of the statements before \<^verbatim>\<open>pd.to_datetime\<close>.
  (\<open>clean_frame_returns\<close> and \<open>validated_rows\<close> below relate them to \<open>clean_frame\<close>.)
\<close>

definition half_row :: "lead \<Rightarrow> lead" where
  "half_row r =
     r\<lparr>phone := fillna (Str ''Not provided'') (phone r),
       email := (let e = fillna (Str ''Not provided'') (email r)
                 in if invalid_email e then Str ''Invalid email'' else e),
       lead_value := fillna (Num 0) (lead_value r),
       source := str_map py_title (str_map py_strip (source r)),
       status := str_map py_title (str_map py_strip (status r)),
       name := str_map py_strip (name r)\<rparr>"

definition clean_row :: "parsers \<Rightarrow> lead \<Rightarrow> lead" where
  "clean_row P r =
     (half_row r)\<lparr>lead_value := coerce_numeric P (fillna (Num 0) (lead_value r)),
                  date_added := the (convert_date P (date_added r))\<rparr>"

subsection \<open>Sample data\<close>

text \<open>
  A parser pair that reads the two dates and the two numbers of the samples, and concrete
  sessions: the two rows of the scenario, the same with a third row whose
  \<open>source\<close>, \<open>status\<close>, \<open>email\<close> and \<open>date_added\<close> are missing, three rows from two
  sources, a file with a header
  line only, and a file with a date that does not parse.
\<close>

definition sample_parsers :: parsers where
  "sample_parsers =
     \<lparr>to_numeric = (\<lambda>s. if s = ''150'' then Some 150
                          else if s = ''900'' then Some 900 else None),
      to_datetime = (\<lambda>c. if c = Str ''2024-01-15'' then Some (Some 1705276800000000000)
                          else if c = Str ''2024-01-16'' then Some (Some 1705363200000000000)
                          else None)\<rparr>"

definition row_ann :: lead where
  "row_ann = \<lparr>lead_id = Num 1, name = Str ''Ann'', email = Str ''a@b.co'', phone = NaN,
              source = Str '' google '', status = Str ''converted'',
              lead_value = Str ''150'', date_added = Str ''2024-01-15''\<rparr>"

definition row_bob :: lead where
  "row_bob = \<lparr>lead_id = Num 2, name = Str ''Bob'', email = Str ''bad-email'',
              phone = Str ''555-0100'', source = Str ''Google'', status = Str ''New'',
              lead_value = NaN, date_added = Str ''2024-01-16''\<rparr>"

definition row_cy :: lead where
  "row_cy = \<lparr>lead_id = Num 3, name = Str '' Cy '', email = NaN, phone = Str ''555-0101'',
             source = NaN, status = NaN, lead_value = Str ''abc'', date_added = NaN\<rparr>"

definition row_dee :: lead where
  "row_dee = \<lparr>lead_id = Num 4, name = Str ''Dee'', email = Str ''d@e.org'', phone = NaN,
              source = Str ''referral'', status = Str ''new'',
              lead_value = Str ''150'', date_added = Str ''next week''\<rparr>"

definition row_eve :: lead where
  "row_eve = \<lparr>lead_id = Num 5, name = Str ''Eve'', email = Str ''eve@mail.example.com'',
              phone = Str ''555-0102'', source = Str ''REFERRAL '', status = Str ''Converted'',
              lead_value = Str ''900'', date_added = Str ''2024-01-16''\<rparr>"

definition session_of :: "frame \<Rightarrow> analyzer" where
  "session_of t = snd (load_data (Some t) (init ''leads.csv''))"

definition scenario :: analyzer where
  "scenario = session_of [row_ann, row_bob]"

definition gap_session :: analyzer where
  "gap_session = session_of [row_ann, row_bob, row_cy]"

definition ranked_session :: analyzer where
  "ranked_session = session_of [row_ann, row_bob, row_eve]"

definition empty_session :: analyzer where
  "empty_session = session_of []"

definition bad_date_session :: analyzer where
  "bad_date_session = session_of [row_dee]"

text \<open>The value a call returned, if it returned one.\<close>

fun returned :: "'a result \<Rightarrow> 'a option" where
  "returned (Returns v) = Some v"
| "returned r = None"

text \<open>The analyzer with the table \<open>t\<close> in the place of its cleaned table.\<close>

definition with_cleaned :: "frame \<Rightarrow> analyzer \<Rightarrow> analyzer" where
  "with_cleaned t a = (case clean_df a of None \<Rightarrow> a | Some c \<Rightarrow> a\<lparr>heap := (heap a)(c := t)\<rparr>)"

text \<open>The analyzer whose cleaned table has lost the rows without a status.\<close>

definition has_status :: "lead \<Rightarrow> bool" where
  "has_status r = (\<not> isnull (status r))"

definition drop_missing_status :: "analyzer \<Rightarrow> analyzer" where
  "drop_missing_status a =
     (case clean_df a of None \<Rightarrow> a | Some c \<Rightarrow> with_cleaned (filter has_status (heap a c)) a)"

text \<open>The analyzer of the scenario, cleaned, on which the file with the bad date is loaded.\<close>

definition reloaded_session :: analyzer where
  "reloaded_session =
     snd (load_data (Some [row_dee]) (snd (clean_data sample_parsers scenario)))"

section \<open>Facts about the object and the cleaning steps\<close>

lemma validated_rows:
  "validate_emails (standardize_name (standardize_status (standardize_source (fill_missing t))))
     = map half_row t"
  by (simp add: validate_emails_def standardize_name_def standardize_status_def
      standardize_source_def fill_missing_def half_row_def Let_def comp_def)

lemma parse_dates_rows:
  "parse_dates P t = Some t' \<Longrightarrow>
   t' = map (\<lambda>r. r\<lparr>date_added := the (convert_date P (date_added r))\<rparr>) t"
  by (simp add: parse_dates_def split: if_splits)

lemma clean_frame_returns:
  assumes "fst (clean_frame P t) = Returns ()"
  shows "snd (clean_frame P t) = map (clean_row P) t"
proof -
  from assms obtain t6 where
    p: "parse_dates P (validate_emails (standardize_name (standardize_status
          (standardize_source (fill_missing t))))) = Some t6"
    and s: "snd (clean_frame P t) = coerce_values P t6"
    by (auto simp: clean_frame_def Let_def split: if_splits option.splits)
  from p have "t6 = map (\<lambda>r. r\<lparr>date_added := the (convert_date P (date_added r))\<rparr>) (map half_row t)"
    by (simp only: validated_rows parse_dates_rows)
  with s show ?thesis
    by (simp add: coerce_values_def half_row_def clean_row_def comp_def Let_def)
qed

lemma clean_frame_date_error:
  assumes "fst (clean_frame P t) = Raises DateParseError"
  shows "snd (clean_frame P t) = map half_row t"
  using assms validated_rows [of t]
  by (auto simp: clean_frame_def Let_def split: if_splits option.splits)

lemma clean_data_loaded:
  assumes "df a = Some d"
  shows "clean_data P a =
           (fst (clean_frame P (heap a d)),
            a\<lparr>heap := (heap a)(next_ref a := snd (clean_frame P (heap a d))),
              next_ref := Suc (next_ref a), clean_df := Some (next_ref a)\<rparr>)"
  using assms by (simp add: clean_data_def alloc_def Let_def split_beta)

lemma clean_data_not_loaded:
  "df a = None \<Longrightarrow> clean_data P a = (Prints ''Please load data first'', a)"
  by (simp add: clean_data_def)

lemma cleaned_table_clean_data:
  assumes "raw_table a = Some t"
  shows "fst (clean_data P a) = fst (clean_frame P t)"
    and "cleaned_table (snd (clean_data P a)) = Some (snd (clean_frame P t))"
  using assms by (auto simp: raw_table_def cleaned_table_def clean_data_loaded)

lemma session_of_simps:
  "df (session_of t) = Some 0" "clean_df (session_of t) = None"
  "heap (session_of t) 0 = t" "next_ref (session_of t) = 1"
  by (simp_all add: session_of_def load_data_def alloc_def init_def)

lemma raw_table_session_of: "raw_table (session_of t) = Some t"
  by (simp add: raw_table_def session_of_simps)

lemma title_converted: "py_title (py_strip ''converted'') = ''Converted''"
  by code_simp

lemma title_new: "py_title (py_strip ''New'') = ''New''"
  by code_simp

lemma scenario_returns: "fst (clean_data sample_parsers scenario) = Returns ()"
  unfolding scenario_def cleaned_table_clean_data(1) [OF raw_table_session_of]
  by code_simp

section \<open>Facts about rounding to doubles\<close>

lemma pow2_powr: "pow2 e = 2 powr (real_of_int e)"
  by (simp add: pow2_def powr_int)

lemma pow2_pos: "0 < pow2 e"
  by (simp add: pow2_powr)

lemma pow2_mono: "a \<le> b \<Longrightarrow> pow2 a \<le> pow2 b"
  by (simp add: pow2_powr)

lemma pow2_less_iff: "pow2 a < pow2 b \<longleftrightarrow> a < b"
  by (simp add: pow2_powr)

lemma pow2_add: "pow2 (a + b) = pow2 a * pow2 b"
  by (simp add: pow2_powr powr_add)

lemma pow2_0: "pow2 0 = 1" and pow2_1: "pow2 1 = 2"
  by (simp_all add: pow2_def)

lemma pow2_succ: "pow2 (e + 1) = 2 * pow2 e"
  by (simp add: pow2_add pow2_1)

lemma pow2_pred: "pow2 (e - 1) = pow2 e / 2"
  using pow2_succ [of "e - 1"] by simp

lemma log2_up_bounds:
  "1 \<le> x \<Longrightarrow> pow2 (log2_up x) \<le> x \<and> x < pow2 (log2_up x + 1)"
proof (induction x rule: log2_up.induct)
  case (1 x)
  show ?case
  proof (cases "x < 2")
    case True
    then have "log2_up x = 0"
      by (subst log2_up.simps) simp
    with True "1.prems" show ?thesis
      by (simp add: pow2_0 pow2_1)
  next
    case False
    with "1.IH" have ih: "pow2 (log2_up (x / 2)) \<le> x / 2" "x / 2 < pow2 (log2_up (x / 2) + 1)"
      by simp_all
    from False have "log2_up x = log2_up (x / 2) + 1"
      by (subst log2_up.simps) simp
    then have "pow2 (log2_up x) = 2 * pow2 (log2_up (x / 2))"
      "pow2 (log2_up x + 1) = 2 * pow2 (log2_up (x / 2) + 1)"
      by (simp_all only: pow2_succ)
    with ih show ?thesis
      by linarith
  qed
qed

lemma log2_down_bounds:
  "0 < x \<Longrightarrow> x < 1 \<Longrightarrow> pow2 (log2_down x) \<le> x \<and> x < pow2 (log2_down x + 1)"
proof (induction x rule: log2_down.induct)
  case (1 x)
  from "1.prems" have step: "log2_down x = log2_down (2 * x) - 1"
    by (subst log2_down.simps) simp
  show ?case
  proof (cases "2 * x < 1")
    case True
    with "1.IH" "1.prems"
    have ih: "pow2 (log2_down (2 * x)) \<le> 2 * x" "2 * x < pow2 (log2_down (2 * x) + 1)"
      by simp_all
    have "pow2 (log2_down x) = pow2 (log2_down (2 * x)) / 2"
      "pow2 (log2_down x + 1) = pow2 (log2_down (2 * x) + 1) / 2"
      using pow2_pred [of "log2_down (2 * x)"] pow2_pred [of "log2_down (2 * x) + 1"]
      by (simp_all add: step)
    with ih show ?thesis
      by linarith
  next
    case False
    then have "log2_down (2 * x) = 0"
      by (subst log2_down.simps) simp
    with False "1.prems" show ?thesis
      by (simp add: step pow2_def)
  qed
qed

lemma exponent_bounds:
  assumes "x \<noteq> 0"
  shows "pow2 (exponent x) \<le> \<bar>x\<bar> \<and> \<bar>x\<bar> < pow2 (exponent x + 1)"
proof (cases "1 \<le> \<bar>x\<bar>")
  case True
  then show ?thesis
    using log2_up_bounds [of "\<bar>x\<bar>"] by (simp add: exponent_def)
next
  case False
  with assms show ?thesis
    using log2_down_bounds [of "\<bar>x\<bar>"] by (simp add: exponent_def)
qed

lemma exponent_le:
  assumes "x \<noteq> 0" and "\<bar>x\<bar> < pow2 (k + 1)"
  shows "exponent x \<le> k"
proof -
  from exponent_bounds [OF assms(1)] assms(2) have "pow2 (exponent x) < pow2 (k + 1)"
    by linarith
  then show ?thesis
    by (simp add: pow2_less_iff)
qed

lemma rint_error: "\<bar>of_int (rint y) - y\<bar> \<le> 1 / 2"
  unfolding rint_def Let_def by (simp; linarith)

lemma double_round_error:
  assumes "\<bar>x\<bar> < pow2 (k + 1)" and "- 1022 \<le> k"
  shows "\<bar>double_round x - x\<bar> \<le> pow2 (k - 53)"
proof (cases "x = 0")
  case True
  then show ?thesis
    using pow2_pos [of "k - 53"] by (simp add: double_round_def)
next
  case False
  define e where "e = max (exponent x) (- 1022) - 52"
  have e: "e \<le> k - 52"
    using exponent_le [OF False assms(1)] assms(2) by (simp add: e_def)
  have p: "0 < pow2 e" by (rule pow2_pos)
  have "double_round x - x = (of_int (rint (x / pow2 e)) - x / pow2 e) * pow2 e"
    using False p by (simp add: double_round_def e_def [symmetric] Let_def field_simps)
  then have "\<bar>double_round x - x\<bar> = \<bar>of_int (rint (x / pow2 e)) - x / pow2 e\<bar> * pow2 e"
    using p by (simp add: abs_mult)
  also have "\<dots> \<le> 1 / 2 * pow2 e"
    using rint_error [of "x / pow2 e"] p by (intro mult_right_mono) simp_all
  also have "\<dots> = pow2 (e - 1)"
    by (simp add: pow2_pred)
  also have "\<dots> \<le> pow2 (k - 53)"
    using e by (intro pow2_mono) simp
  finally show ?thesis .
qed

text \<open>The rate of \<open>c\<close> converted rows out of \<open>t\<close>, computed in doubles, is close to the exact one.\<close>

lemma rate_error:
  assumes "c \<le> t" and "0 < t"
  shows "\<bar>double_round (double_round (real c / real t) * 100) - real c / real t * 100\<bar> \<le> 1 / 2 ^ 45"
proof -
  define q where "q = real c / real t"
  have q: "0 \<le> q" "q \<le> 1"
    using assms by (simp_all add: q_def)
  then have "\<bar>q\<bar> < pow2 (0 + 1)"
    by (simp add: pow2_1)
  then have 1: "\<bar>double_round q - q\<bar> \<le> pow2 (0 - 53)"
    by (rule double_round_error) simp
  have p53: "pow2 (0 - 53) = 1 / 2 ^ 53" and p47: "pow2 (6 - 53) = 1 / 2 ^ 47"
    and p7: "pow2 (6 + 1) = 128"
    by (simp_all add: pow2_def)
  from 1 q have "\<bar>double_round q * 100\<bar> < pow2 (6 + 1)"
    unfolding p53 p7 by (simp add: abs_if split: if_splits)
  then have 2: "\<bar>double_round (double_round q * 100) - double_round q * 100\<bar> \<le> pow2 (6 - 53)"
    by (rule double_round_error) simp
  from 1 2 have "\<bar>double_round (double_round q * 100) - q * 100\<bar> \<le> 1 / 2 ^ 47 + 100 / 2 ^ 53"
    unfolding p53 p47 by (simp add: abs_if split: if_splits)
  also have "\<dots> \<le> 1 / 2 ^ 45"
    by simp
  finally show ?thesis
    by (simp add: q_def)
qed

lemma half_times_100: "double_round (double_round (1 / 2) * 100) = 50"
  by code_simp

section \<open>Claims\<close>

text \<open>
  Claim C1. Whenever a cleaned table is held, \<^verbatim>\<open>calculate_conversion_rate\<close> returns
  (number of rows whose status is \<open>Converted\<close> / number of rows) * 100 as the code's
  doubles compute it (the quotient rounded to a double, times 100, rounded again), which
  is within \<open>2^-45\<close> of the exact value of that expression; it returns 0 when there is
  no row. For a raw table of two rows with status \<open>converted\<close> and \<open>New\<close> (the scenario;
  the other fields are arbitrary), a cleaning call that returns is followed by a
  conversion rate of exactly 50.
\<close>

theorem conversion_rate_formula:
  "(\<forall>a c. clean_df a = Some c \<longrightarrow>
      calculate_conversion_rate a =
        Returns (if length (heap a c) = 0 then 0
                 else double_round
                        (double_round
                           (real (length (filter (\<lambda>r. status r = Str ''Converted'') (heap a c)))
                              / real (length (heap a c))) * 100))) \<and>
   (\<forall>a c rate. clean_df a = Some c \<and> calculate_conversion_rate a = Returns rate \<longrightarrow>
      \<bar>rate - real (length (filter (\<lambda>r. status r = Str ''Converted'') (heap a c)))
                 / real (length (heap a c)) * 100\<bar> \<le> 1 / 2 ^ 45) \<and>
   (\<forall>P a r1 r2.
      raw_table a = Some [r1, r2] \<and>
      status r1 = Str ''converted'' \<and> status r2 = Str ''New'' \<and>
      fst (clean_data P a) = Returns ()
      \<longrightarrow> calculate_conversion_rate (snd (clean_data P a)) = Returns 50)"
proof (intro conjI allI impI)
  fix a :: analyzer and c
  assume "clean_df a = Some c"
  then show "calculate_conversion_rate a =
        Returns (if length (heap a c) = 0 then 0
                 else double_round
                        (double_round
                           (real (length (filter (\<lambda>r. status r = Str ''Converted'') (heap a c)))
                              / real (length (heap a c))) * 100))"
    by (simp add: calculate_conversion_rate_def Let_def)
next
  fix a :: analyzer and c rate
  assume h: "clean_df a = Some c \<and> calculate_conversion_rate a = Returns rate"
  let ?n = "length (filter (\<lambda>r. status r = Str ''Converted'') (heap a c))"
  let ?t = "length (heap a c)"
  show "\<bar>rate - real ?n / real ?t * 100\<bar> \<le> 1 / 2 ^ 45"
  proof (cases "?t = 0")
    case True
    with h show ?thesis
      by (auto simp: calculate_conversion_rate_def Let_def)
  next
    case False
    with h have "rate = double_round (double_round (real ?n / real ?t) * 100)"
      by (auto simp: calculate_conversion_rate_def Let_def)
    moreover have "?n \<le> ?t" by simp
    ultimately show ?thesis
      using False rate_error [of ?n ?t] by simp
  qed
next
  fix P a r1 r2
  assume h: "raw_table a = Some [r1, r2] \<and>
      status r1 = Str ''converted'' \<and> status r2 = Str ''New'' \<and>
      fst (clean_data P a) = Returns ()"
  then obtain d where d: "df a = Some d" and t: "heap a d = [r1, r2]"
    by (auto simp: raw_table_def)
  from h d have "fst (clean_frame P (heap a d)) = Returns ()"
    by (simp add: clean_data_loaded)
  then have "snd (clean_frame P (heap a d)) = map (clean_row P) (heap a d)"
    by (rule clean_frame_returns)
  with h d t show "calculate_conversion_rate (snd (clean_data P a)) = Returns 50"
    by (simp add: clean_data_loaded calculate_conversion_rate_def clean_row_def half_row_def
        title_converted title_new half_times_100)
qed

text \<open>With 7 rows converted out of 25 the doubles give 28.000000000000004.\<close>

lemma rate_7_of_25: "double_round (double_round (7 / 25) * 100) = 28 + 1 / 2 ^ 48"
  by code_simp

lemma rate_1_of_3:
  "double_round (double_round (1 / 3) * 100) = 2345624805922133 / 70368744177664"
  by code_simp

theorem conversion_rate_formula_witness:
  "raw_table scenario = Some [row_ann, row_bob] \<and>
   status row_ann = Str ''converted'' \<and> status row_bob = Str ''New'' \<and>
   fst (clean_data sample_parsers scenario) = Returns () \<and>
   clean_df (snd (clean_data sample_parsers scenario)) = Some 1 \<and>
   calculate_conversion_rate (snd (clean_data sample_parsers scenario)) = Returns 50 \<and>
   clean_df (snd (clean_data sample_parsers gap_session)) = Some 1 \<and>
   calculate_conversion_rate (snd (clean_data sample_parsers gap_session)) =
     Returns (2345624805922133 / 70368744177664) \<and>
   \<bar>2345624805922133 / 70368744177664 - 1 / 3 * 100\<bar> \<le> (1 / 2 ^ 45 :: real)"
proof -
  have h: "raw_table scenario = Some [row_ann, row_bob] \<and>
      status row_ann = Str ''converted'' \<and> status row_bob = Str ''New'' \<and>
      fst (clean_data sample_parsers scenario) = Returns ()"
    by (simp add: scenario_returns) (simp add: scenario_def raw_table_session_of row_ann_def row_bob_def)
  have c: "clean_df (snd (clean_data sample_parsers scenario)) = Some 1"
    by (simp add: scenario_def clean_data_loaded [OF session_of_simps(1)] session_of_simps)
  have c': "clean_df (snd (clean_data sample_parsers gap_session)) = Some 1"
    by (simp add: gap_session_def clean_data_loaded [OF session_of_simps(1)] session_of_simps)
  have g: "heap (snd (clean_data sample_parsers gap_session)) 1 =
      map (clean_row sample_parsers) [row_ann, row_bob, row_cy]"
  proof -
    have r: "raw_table gap_session = Some [row_ann, row_bob, row_cy]"
      by (simp add: gap_session_def raw_table_session_of)
    have "fst (clean_frame sample_parsers [row_ann, row_bob, row_cy]) = Returns ()"
      unfolding cleaned_table_clean_data(1) [OF r, symmetric]
      unfolding gap_session_def cleaned_table_clean_data(1) [OF raw_table_session_of]
      by code_simp
    then have "cleaned_table (snd (clean_data sample_parsers gap_session)) =
        Some (map (clean_row sample_parsers) [row_ann, row_bob, row_cy])"
      by (simp add: cleaned_table_clean_data(2) [OF r] clean_frame_returns)
    then show ?thesis
      by (simp add: cleaned_table_def c')
  qed
  have s: "map status (map (clean_row sample_parsers) [row_ann, row_bob, row_cy]) =
      [Str ''Converted'', Str ''New'', NaN]"
    by (simp add: clean_row_def half_row_def row_ann_def row_bob_def row_cy_def
        title_converted title_new)
  from conversion_rate_formula h c have 1:
    "calculate_conversion_rate (snd (clean_data sample_parsers scenario)) = Returns 50"
    by blast
  from conversion_rate_formula c' have
    "calculate_conversion_rate (snd (clean_data sample_parsers gap_session)) =
       Returns (if length (heap (snd (clean_data sample_parsers gap_session)) 1) = 0 then 0
                else double_round
                       (double_round
                          (real (length (filter (\<lambda>r. status r = Str ''Converted'')
                                   (heap (snd (clean_data sample_parsers gap_session)) 1)))
                             / real (length (heap (snd (clean_data sample_parsers gap_session)) 1)))
                        * 100))"
    by blast
  moreover have "length (filter (\<lambda>r. status r = Str ''Converted'')
      (map (clean_row sample_parsers) [row_ann, row_bob, row_cy])) = 1"
    using s by (simp add: filter_map comp_def)
  ultimately have 2: "calculate_conversion_rate (snd (clean_data sample_parsers gap_session)) =
       Returns (2345624805922133 / 70368744177664)"
    unfolding g by (simp add: rate_1_of_3)
  from h c c' 1 2 show ?thesis
    by simp
qed

lemma not_provided_invalid: "\<not> email_match ''Not provided''"
  by code_simp

lemma email_match_nonempty: "email_match s \<Longrightarrow> s \<noteq> []"
  by (auto simp: email_match_def full_match_def)

lemma email_half_row:
  "email (half_row r) =
     (case email r of
        Str s \<Rightarrow> if email_match s then Str s else Str ''Invalid email''
      | _ \<Rightarrow> Str ''Invalid email'')"
  by (cases "email r") (simp_all add: half_row_def fillna_def isnull_def not_provided_invalid)

lemma email_clean_row: "email (clean_row P r) = email (half_row r)"
  by (simp add: clean_row_def)

lemma reached_dates:
  assumes "raw_table a = Some t"
    and "fst (clean_data P a) = Returns () \<or> fst (clean_data P a) = Raises DateParseError"
  shows "\<exists>t'. cleaned_table (snd (clean_data P a)) = Some t' \<and> length t' = length t \<and>
              (\<forall>i<length t. email (t' ! i) = email (half_row (t ! i)))"
  using assms
  by (auto simp: cleaned_table_clean_data clean_frame_returns clean_frame_date_error
      email_clean_row)

text \<open>
  Claim C2. The fill step puts \<open>Not provided\<close> in place of a missing e-mail; the
  validation step puts \<open>Invalid email\<close> in place of every entry that does not match the
  pattern, and \<open>Not provided\<close> does not match. After a cleaning call that reached the
  date conversion (it returned, or raised there), no e-mail is \<open>Not provided\<close>, an e-mail
  that matches the pattern is as it was, and every other one is \<open>Invalid email\<close>.
\<close>

theorem email_validation:
  "(\<forall>t i. i < length t \<and> isnull (email (t ! i)) \<longrightarrow>
       email (fill_missing t ! i) = Str ''Not provided'') \<and>
   (\<forall>t i. i < length t \<longrightarrow>
       email (validate_emails t ! i) =
         (if invalid_email (email (t ! i)) then Str ''Invalid email'' else email (t ! i))) \<and>
   invalid_email (Str ''Not provided'') \<and>
   (\<forall>P a t. raw_table a = Some t \<and>
       (fst (clean_data P a) = Returns () \<or> fst (clean_data P a) = Raises DateParseError) \<longrightarrow>
       (\<exists>t'. cleaned_table (snd (clean_data P a)) = Some t' \<and> length t' = length t \<and>
          (\<forall>i<length t.
             email (t' ! i) \<noteq> Str ''Not provided'' \<and>
             email (t' ! i) =
               (case email (t ! i) of
                  Str s \<Rightarrow> if email_match s then Str s else Str ''Invalid email''
                | _ \<Rightarrow> Str ''Invalid email''))))"
proof (intro conjI allI impI)
  fix t :: frame and i
  assume "i < length t \<and> isnull (email (t ! i))"
  then show "email (fill_missing t ! i) = Str ''Not provided''"
    by (simp add: fill_missing_def fillna_def)
next
  fix t :: frame and i
  assume "i < length t"
  then show "email (validate_emails t ! i) =
         (if invalid_email (email (t ! i)) then Str ''Invalid email'' else email (t ! i))"
    by (simp add: validate_emails_def)
next
  show "invalid_email (Str ''Not provided'')"
    by (simp add: not_provided_invalid)
next
  fix P a t
  assume h: "raw_table a = Some t \<and>
       (fst (clean_data P a) = Returns () \<or> fst (clean_data P a) = Raises DateParseError)"
  then obtain t' where t': "cleaned_table (snd (clean_data P a)) = Some t'"
    "length t' = length t" "\<forall>i<length t. email (t' ! i) = email (half_row (t ! i))"
    using reached_dates by blast
  have "email (half_row r) \<noteq> Str ''Not provided''" for r
    using not_provided_invalid by (auto simp: email_half_row split: cell.splits)
  with t' show "\<exists>t'. cleaned_table (snd (clean_data P a)) = Some t' \<and> length t' = length t \<and>
          (\<forall>i<length t.
             email (t' ! i) \<noteq> Str ''Not provided'' \<and>
             email (t' ! i) =
               (case email (t ! i) of
                  Str s \<Rightarrow> if email_match s then Str s else Str ''Invalid email''
                | _ \<Rightarrow> Str ''Invalid email''))"
    by (simp add: email_half_row)
qed

lemma gap_returns: "fst (clean_data sample_parsers gap_session) = Returns ()"
  unfolding gap_session_def cleaned_table_clean_data(1) [OF raw_table_session_of]
  by code_simp

lemma gap_cleaned:
  "cleaned_table (snd (clean_data sample_parsers gap_session)) =
     Some [\<lparr>lead_id = Num 1, name = Str ''Ann'', email = Str ''a@b.co'',
             phone = Str ''Not provided'', source = Str ''Google'',
             status = Str ''Converted'', lead_value = Num 150,
             date_added = Time 1705276800000000000\<rparr>,
           \<lparr>lead_id = Num 2, name = Str ''Bob'', email = Str ''Invalid email'',
             phone = Str ''555-0100'', source = Str ''Google'',
             status = Str ''New'', lead_value = Num 0,
             date_added = Time 1705363200000000000\<rparr>,
           \<lparr>lead_id = Num 3, name = Str ''Cy'', email = Str ''Invalid email'',
             phone = Str ''555-0101'', source = NaN, status = NaN,
             lead_value = Num 0, date_added = NaT\<rparr>]"
  unfolding gap_session_def cleaned_table_clean_data(2) [OF raw_table_session_of]
  by code_simp

theorem email_validation_witness:
  "(0::nat) < length [row_cy] \<and> isnull (email ([row_cy] ! 0)) \<and>
   email (fill_missing [row_cy] ! 0) = Str ''Not provided'' \<and>
   email (validate_emails (fill_missing [row_cy]) ! 0) = Str ''Invalid email'' \<and>
   raw_table gap_session = Some [row_ann, row_bob, row_cy] \<and>
   fst (clean_data sample_parsers gap_session) = Returns () \<and>
   map_option (map email) (cleaned_table (snd (clean_data sample_parsers gap_session))) =
     Some [Str ''a@b.co'', Str ''Invalid email'', Str ''Invalid email'']"
proof -
  have h: "(0::nat) < length [row_cy] \<and> isnull (email ([row_cy] ! 0))"
    by (simp add: row_cy_def isnull_def)
  have "email (fill_missing [row_cy] ! 0) = Str ''Not provided''"
    using email_validation h by blast
  moreover have "email (validate_emails (fill_missing [row_cy]) ! 0) = Str ''Invalid email''"
    by (simp add: validate_emails_def fill_missing_def fillna_def isnull_def row_cy_def
        not_provided_invalid)
  moreover have "raw_table gap_session = Some [row_ann, row_bob, row_cy]"
    by (simp add: gap_session_def raw_table_session_of)
  ultimately show ?thesis
    using h by (simp add: gap_returns gap_cleaned)
qed

lemma phone_clean_row: "phone (clean_row P r) = fillna (Str ''Not provided'') (phone r)"
  by (simp add: clean_row_def half_row_def)

lemma lead_id_clean_row: "lead_id (clean_row P r) = lead_id r"
  by (simp add: clean_row_def half_row_def)

lemma email_half_row_present:
  "\<not> isnull (email (half_row r)) \<and> email (half_row r) \<noteq> Str ''''"
  using email_match_nonempty
  by (auto simp: email_half_row isnull_def split: cell.splits)

text \<open>
  Claim C7. A cleaning call that returns leaves a cleaned table with one row for each
  raw row, in the same order, each the rewriting \<open>clean_row\<close> of its raw row and with the
  same \<open>lead_id\<close>. In it no phone and no e-mail is missing, no e-mail is the empty
  string, and a phone is the empty string only where the raw phone was (\<^verbatim>\<open>read_csv\<close>
  reads an empty field as missing, so a loaded table has no such cell).
\<close>

theorem cleaning_keeps_rows:
  assumes "raw_table a = Some t" and "fst (clean_data P a) = Returns ()"
  shows "\<exists>t'. cleaned_table (snd (clean_data P a)) = Some t' \<and>
           t' = map (clean_row P) t \<and> length t' = length t \<and>
           (\<forall>i<length t.
              lead_id (t' ! i) = lead_id (t ! i) \<and>
              \<not> isnull (phone (t' ! i)) \<and> \<not> isnull (email (t' ! i)) \<and>
              email (t' ! i) \<noteq> Str '''' \<and>
              (phone (t ! i) \<noteq> Str '''' \<longrightarrow> phone (t' ! i) \<noteq> Str ''''))"
proof -
  from assms have c: "cleaned_table (snd (clean_data P a)) = Some (map (clean_row P) t)"
    by (simp add: cleaned_table_clean_data clean_frame_returns)
  have "\<not> isnull (phone (clean_row P r)) \<and>
        (phone r \<noteq> Str '''' \<longrightarrow> phone (clean_row P r) \<noteq> Str '''')" for r
    by (simp add: phone_clean_row fillna_def isnull_def)
  with c show ?thesis
    by (simp add: lead_id_clean_row email_clean_row email_half_row_present)
qed

theorem cleaning_keeps_rows_witness:
  "raw_table gap_session = Some [row_ann, row_bob, row_cy] \<and>
   fst (clean_data sample_parsers gap_session) = Returns () \<and>
   map_option length (cleaned_table (snd (clean_data sample_parsers gap_session))) = Some 3 \<and>
   map_option (map lead_id) (cleaned_table (snd (clean_data sample_parsers gap_session))) =
     Some [Num 1, Num 2, Num 3] \<and>
   map_option (map phone) (cleaned_table (snd (clean_data sample_parsers gap_session))) =
     Some [Str ''Not provided'', Str ''555-0100'', Str ''555-0101'']"
proof -
  have r: "raw_table gap_session = Some [row_ann, row_bob, row_cy]"
    by (simp add: gap_session_def raw_table_session_of)
  from cleaning_keeps_rows [OF r gap_returns]
  have "map_option length (cleaned_table (snd (clean_data sample_parsers gap_session))) = Some 3"
    by auto
  then show ?thesis
    using r by (simp add: gap_returns gap_cleaned)
qed

lemma wf_init: "wf (init path)"
  by (simp add: wf_def init_def)

lemma wf_load_data: "wf a \<Longrightarrow> wf (snd (load_data csv a))"
  by (auto simp: wf_def load_data_def alloc_def split: option.splits)

lemma wf_clean_data: "wf a \<Longrightarrow> wf (snd (clean_data P a))"
  by (cases "df a") (auto simp: wf_def clean_data_loaded clean_data_not_loaded split: option.splits)

lemma wf_session_of: "wf (session_of t)"
  unfolding session_of_def by (intro wf_load_data wf_init)

lemma raw_table_clean_data:
  assumes "wf a"
  shows "df (snd (clean_data P a)) = df a" and "raw_table (snd (clean_data P a)) = raw_table a"
  using assms
  by (cases "df a"; simp add: wf_def raw_table_def clean_data_loaded clean_data_not_loaded)+

text \<open>
  Claim C8. \<^verbatim>\<open>clean_data\<close> works on a new object: after any call the analyzer holds the
  same raw reference and the raw table is unchanged, and the object of an earlier cleaned
  table is not written either. When a raw table is loaded, outcome and cleaned table
  are those of the steps applied to the current raw table, whatever cleaned table was
  held before, so a second call yields the same cleaned table again.
\<close>

theorem cleaning_copies:
  assumes "wf a"
  shows "df (snd (clean_data P a)) = df a \<and>
         raw_table (snd (clean_data P a)) = raw_table a \<and>
         (\<forall>c. clean_df a = Some c \<longrightarrow> heap (snd (clean_data P a)) c = heap a c) \<and>
         (\<forall>t. raw_table a = Some t \<longrightarrow>
            clean_df (snd (clean_data P a)) \<noteq> df a \<and>
            clean_df (snd (clean_data P a)) \<noteq> clean_df a \<and>
            fst (clean_data P a) = fst (clean_frame P t) \<and>
            cleaned_table (snd (clean_data P a)) = Some (snd (clean_frame P t)) \<and>
            cleaned_table (snd (clean_data P (snd (clean_data P a)))) =
              cleaned_table (snd (clean_data P a)))"
proof (intro conjI allI impI)
  show "df (snd (clean_data P a)) = df a" "raw_table (snd (clean_data P a)) = raw_table a"
    using assms by (rule raw_table_clean_data)+
next
  fix c assume "clean_df a = Some c"
  with assms show "heap (snd (clean_data P a)) c = heap a c"
    by (cases "df a") (auto simp: wf_def clean_data_loaded clean_data_not_loaded)
next
  fix t assume t: "raw_table a = Some t"
  then obtain d where d: "df a = Some d" by (auto simp: raw_table_def)
  with assms show "clean_df (snd (clean_data P a)) \<noteq> df a"
    by (auto simp: wf_def clean_data_loaded)
  from assms d show "clean_df (snd (clean_data P a)) \<noteq> clean_df a"
    by (auto simp: wf_def clean_data_loaded split: option.splits)
  from t show "fst (clean_data P a) = fst (clean_frame P t)"
    "cleaned_table (snd (clean_data P a)) = Some (snd (clean_frame P t))"
    by (rule cleaned_table_clean_data)+
  from assms t have "raw_table (snd (clean_data P a)) = Some t"
    by (simp add: raw_table_clean_data)
  then show "cleaned_table (snd (clean_data P (snd (clean_data P a)))) =
              cleaned_table (snd (clean_data P a))"
    using t by (simp add: cleaned_table_clean_data)
qed

theorem cleaning_copies_witness:
  "wf (snd (clean_data sample_parsers scenario)) \<and>
   clean_df (snd (clean_data sample_parsers scenario)) = Some 1 \<and>
   raw_table (snd (clean_data sample_parsers scenario)) = Some [row_ann, row_bob] \<and>
   raw_table (snd (clean_data sample_parsers (snd (clean_data sample_parsers scenario)))) =
     Some [row_ann, row_bob] \<and>
   heap (snd (clean_data sample_parsers (snd (clean_data sample_parsers scenario)))) 1 =
     heap (snd (clean_data sample_parsers scenario)) 1 \<and>
   clean_df (snd (clean_data sample_parsers (snd (clean_data sample_parsers scenario)))) \<noteq> Some 1"
proof -
  let ?a = "snd (clean_data sample_parsers scenario)"
  have w: "wf ?a"
    unfolding scenario_def by (intro wf_clean_data wf_session_of)
  have c: "clean_df ?a = Some 1"
    by (simp add: scenario_def clean_data_loaded [OF session_of_simps(1)] session_of_simps)
  have r: "raw_table ?a = Some [row_ann, row_bob]"
    by (simp add: scenario_def raw_table_clean_data wf_session_of raw_table_session_of)
  from cleaning_copies [OF w, of sample_parsers] c r show ?thesis
    using w by auto
qed

lemma date_added_half_row: "date_added (half_row r) = date_added r"
  by (simp add: half_row_def)

lemma parse_dates_fails:
  assumes "\<exists>r\<in>set t. convert_date P (date_added r) = None"
  shows "parse_dates P (map half_row t) = None"
  using assms by (auto simp: parse_dates_def list_all_iff date_added_half_row)

lemma clean_frame_bad_date:
  assumes "\<exists>r\<in>set t. convert_date P (date_added r) = None"
  shows "fst (clean_frame P t) = Raises DateParseError \<or>
         fst (clean_frame P t) = Raises AttributeError"
  using parse_dates_fails [OF assms] validated_rows [of t]
  by (auto simp: clean_frame_def Let_def)

text \<open>
  Claim C4, as the code has it. If a \<open>date_added\<close> entry of the loaded table does not
  parse, \<^verbatim>\<open>clean_data\<close> raises (at the date conversion, unless a \<^verbatim>\<open>.str\<close> step raised
  before) and the raw table is unchanged; but \<open>clean_df\<close> has been rebound to the new
  copy by then. After the failure at the date conversion that copy holds every row with
  the fills, the standardised text fields and the validated e-mails, and with
  \<open>date_added\<close> as loaded: no row has its date converted.
\<close>

theorem failed_date_leaves_partial:
  assumes "wf a" and "raw_table a = Some t"
    and "\<exists>r\<in>set t. convert_date P (date_added r) = None"
  shows "(fst (clean_data P a) = Raises DateParseError \<or>
          fst (clean_data P a) = Raises AttributeError) \<and>
         raw_table (snd (clean_data P a)) = Some t \<and>
         clean_df (snd (clean_data P a)) = Some (next_ref a) \<and>
         clean_df (snd (clean_data P a)) \<noteq> clean_df a \<and>
         (fst (clean_data P a) = Raises DateParseError \<longrightarrow>
            cleaned_table (snd (clean_data P a)) = Some (map half_row t) \<and>
            map date_added (map half_row t) = map date_added t)"
proof -
  from assms(2) obtain d where d: "df a = Some d" by (auto simp: raw_table_def)
  have 1: "fst (clean_data P a) = Raises DateParseError \<or>
           fst (clean_data P a) = Raises AttributeError"
    using clean_frame_bad_date [OF assms(3)] assms(2) by (simp add: cleaned_table_clean_data)
  have 2: "raw_table (snd (clean_data P a)) = Some t"
    using assms(1,2) by (simp add: raw_table_clean_data)
  have 3: "clean_df (snd (clean_data P a)) = Some (next_ref a)"
    using d by (simp add: clean_data_loaded)
  have 4: "clean_df (snd (clean_data P a)) \<noteq> clean_df a"
    using assms(1) 3 by (auto simp: wf_def split: option.splits)
  have 5: "cleaned_table (snd (clean_data P a)) = Some (map half_row t)"
    if "fst (clean_data P a) = Raises DateParseError"
    using that assms(2) by (simp add: cleaned_table_clean_data clean_frame_date_error)
  have 6: "map date_added (map half_row t) = map date_added t"
    by (simp add: date_added_half_row)
  from 1 2 3 4 5 6 show ?thesis by blast
qed

lemma bad_date_raises: "fst (clean_data sample_parsers bad_date_session) = Raises DateParseError"
  unfolding bad_date_session_def cleaned_table_clean_data(1) [OF raw_table_session_of]
  by code_simp

lemma half_row_dee:
  "half_row row_dee =
     \<lparr>lead_id = Num 4, name = Str ''Dee'', email = Str ''d@e.org'',
      phone = Str ''Not provided'', source = Str ''Referral'', status = Str ''New'',
      lead_value = Str ''150'', date_added = Str ''next week''\<rparr>"
  by code_simp

theorem failed_date_leaves_partial_witness:
  "wf bad_date_session \<and> raw_table bad_date_session = Some [row_dee] \<and>
   convert_date sample_parsers (date_added row_dee) = None \<and>
   fst (clean_data sample_parsers bad_date_session) = Raises DateParseError \<and>
   raw_table (snd (clean_data sample_parsers bad_date_session)) = Some [row_dee] \<and>
   clean_df (snd (clean_data sample_parsers bad_date_session)) = Some 1 \<and>
   cleaned_table (snd (clean_data sample_parsers bad_date_session)) = Some [half_row row_dee]"
proof -
  have w: "wf bad_date_session"
    by (simp add: bad_date_session_def wf_session_of)
  have r: "raw_table bad_date_session = Some [row_dee]"
    by (simp add: bad_date_session_def raw_table_session_of)
  have c: "convert_date sample_parsers (date_added row_dee) = None"
    by (simp add: convert_date_def sample_parsers_def row_dee_def isnull_def)
  then have e: "\<exists>r\<in>set [row_dee]. convert_date sample_parsers (date_added r) = None"
    by simp
  have n: "next_ref bad_date_session = 1"
    by (simp add: bad_date_session_def session_of_simps)
  from failed_date_leaves_partial [OF w r e] bad_date_raises n w r c
  show ?thesis by simp
qed

text \<open>
  The claim as stated fails: after the failing call on \<open>bad_date_session\<close>, which held no
  cleaned table, \<open>clean_df\<close> refers to a partly rewritten table; and on
  \<open>reloaded_session\<close> the cleaned table of the scenario has given way to such a table.
\<close>

theorem failed_cleaning_counterexample:
  "fst (clean_data sample_parsers bad_date_session) = Raises DateParseError \<and>
   cleaned_table bad_date_session = None \<and>
   cleaned_table (snd (clean_data sample_parsers bad_date_session)) =
     Some [\<lparr>lead_id = Num 4, name = Str ''Dee'', email = Str ''d@e.org'',
             phone = Str ''Not provided'', source = Str ''Referral'', status = Str ''New'',
             lead_value = Str ''150'', date_added = Str ''next week''\<rparr>] \<and>
   fst (clean_data sample_parsers reloaded_session) = Raises DateParseError \<and>
   map_option (map name) (cleaned_table reloaded_session) = Some [Str ''Ann'', Str ''Bob''] \<and>
   map_option (map name) (cleaned_table (snd (clean_data sample_parsers reloaded_session))) =
     Some [Str ''Dee'']"
proof -
  have 1: "cleaned_table bad_date_session = None"
    by (simp add: cleaned_table_def bad_date_session_def session_of_simps)
  have r0: "raw_table bad_date_session = Some [row_dee]"
    by (simp add: bad_date_session_def raw_table_session_of)
  have "fst (clean_frame sample_parsers [row_dee]) = Raises DateParseError"
    using bad_date_raises by (simp only: cleaned_table_clean_data(1) [OF r0])
  then have 2: "cleaned_table (snd (clean_data sample_parsers bad_date_session)) =
             Some [half_row row_dee]"
    by (simp add: cleaned_table_clean_data(2) [OF r0] clean_frame_date_error)
  have r: "raw_table reloaded_session = Some [row_dee]"
    by (simp add: reloaded_session_def raw_table_def load_data_def alloc_def)
  have 3: "fst (clean_data sample_parsers reloaded_session) = Raises DateParseError"
    unfolding cleaned_table_clean_data(1) [OF r] by code_simp
  have "fst (clean_frame sample_parsers [row_dee]) = Raises DateParseError"
    using 3 by (simp only: cleaned_table_clean_data(1) [OF r])
  then have 4: "cleaned_table (snd (clean_data sample_parsers reloaded_session)) =
             Some [half_row row_dee]"
    by (simp add: cleaned_table_clean_data(2) [OF r] clean_frame_date_error)
  have "clean_df (snd (clean_data sample_parsers scenario)) = Some 1"
    "next_ref (snd (clean_data sample_parsers scenario)) = 2"
    by (simp_all add: scenario_def clean_data_loaded [OF session_of_simps(1)] session_of_simps)
  then have "cleaned_table reloaded_session =
      cleaned_table (snd (clean_data sample_parsers scenario))"
    by (simp add: reloaded_session_def cleaned_table_def load_data_def alloc_def)
  also have "\<dots> = Some (map (clean_row sample_parsers) [row_ann, row_bob])"
  proof -
    have rs: "raw_table scenario = Some [row_ann, row_bob]"
      by (simp add: scenario_def raw_table_session_of)
    have "fst (clean_frame sample_parsers [row_ann, row_bob]) = Returns ()"
      using scenario_returns by (simp only: cleaned_table_clean_data(1) [OF rs])
    then show ?thesis
      by (simp add: cleaned_table_clean_data(2) [OF rs] clean_frame_returns)
  qed
  finally have 5: "map_option (map name) (cleaned_table reloaded_session) =
      Some [Str ''Ann'', Str ''Bob'']"
    by (simp add: clean_row_def half_row_def row_ann_def row_bob_def py_strip_def is_space_def)
  from 1 2 3 4 5 bad_date_raises show ?thesis
    by (simp add: half_row_dee)
qed

lemma clean_frame_no_message: "fst (clean_frame P t) \<noteq> Prints m"
  by (simp add: clean_frame_def Let_def split: option.splits)

text \<open>
  Claim C9, as the code has it. While no raw table is held (\<open>df\<close> is \<^verbatim>\<open>None\<close>),
  \<^verbatim>\<open>clean_data\<close> prints \<open>Please load data first\<close>, returns, and leaves the analyzer as
  it was; while no cleaned table is held (\<open>clean_df\<close> is \<^verbatim>\<open>None\<close>), each aggregation
  prints \<open>Please clean data first\<close> and returns (the aggregations never write the
  analyzer). A load that fails leaves the analyzer as it was, no load touches
  \<open>clean_df\<close>, and a new analyzer holds neither table. These are the only cases in which
  a message is printed: a \<^verbatim>\<open>clean_data\<close> call on a loaded table sets \<open>clean_df\<close> whether
  it returns or raises, and once \<open>clean_df\<close> is set no aggregation prints the message.
\<close>

theorem guards_report:
  "(df a = None \<longrightarrow> clean_data P a = (Prints ''Please load data first'', a)) \<and>
   (clean_df a = None \<longrightarrow>
      calculate_conversion_rate a = Prints ''Please clean data first'' \<and>
      analyze_by_source a = Prints ''Please clean data first'' \<and>
      analyze_by_status a = Prints ''Please clean data first'' \<and>
      analyze_trends a = Prints ''Please clean data first'') \<and>
   load_data None a = (False, a) \<and>
   clean_df (snd (load_data csv a)) = clean_df a \<and>
   df (init path) = None \<and> clean_df (init path) = None \<and>
   (df a \<noteq> None \<longrightarrow>
      clean_df (snd (clean_data P a)) \<noteq> None \<and> (\<forall>m. fst (clean_data P a) \<noteq> Prints m)) \<and>
   (clean_df a \<noteq> None \<longrightarrow>
      (\<forall>m. calculate_conversion_rate a \<noteq> Prints m \<and> analyze_by_source a \<noteq> Prints m \<and>
           analyze_by_status a \<noteq> Prints m \<and> analyze_trends a \<noteq> Prints m))"
proof -
  have 1: "clean_df (snd (clean_data P a)) \<noteq> None \<and> (\<forall>m. fst (clean_data P a) \<noteq> Prints m)"
    if "df a \<noteq> None"
    using that by (auto simp: clean_data_loaded clean_frame_no_message)
  have 2: "calculate_conversion_rate a \<noteq> Prints m \<and> analyze_by_source a \<noteq> Prints m \<and>
           analyze_by_status a \<noteq> Prints m \<and> analyze_trends a \<noteq> Prints m"
    if "clean_df a \<noteq> None" for m
    using that
    by (auto simp: calculate_conversion_rate_def analyze_by_source_def analyze_by_status_def
        analyze_trends_def Let_def split: if_splits)
  have 3: "(df a = None \<longrightarrow> clean_data P a = (Prints ''Please load data first'', a)) \<and>
   (clean_df a = None \<longrightarrow>
      calculate_conversion_rate a = Prints ''Please clean data first'' \<and>
      analyze_by_source a = Prints ''Please clean data first'' \<and>
      analyze_by_status a = Prints ''Please clean data first'' \<and>
      analyze_trends a = Prints ''Please clean data first'') \<and>
   load_data None a = (False, a) \<and>
   clean_df (snd (load_data csv a)) = clean_df a \<and>
   df (init path) = None \<and> clean_df (init path) = None"
    by (auto simp: clean_data_not_loaded calculate_conversion_rate_def analyze_by_source_def
        analyze_by_status_def analyze_trends_def load_data_def init_def alloc_def
        split: option.splits)
  from 1 2 3 show ?thesis by blast
qed

theorem guards_report_witness:
  "df (init ''leads.csv'') = None \<and>
   clean_data sample_parsers (init ''leads.csv'') =
     (Prints ''Please load data first'', init ''leads.csv'') \<and>
   clean_df scenario = None \<and> df scenario \<noteq> None \<and>
   calculate_conversion_rate scenario = Prints ''Please clean data first'' \<and>
   analyze_by_source scenario = Prints ''Please clean data first'' \<and>
   analyze_by_status scenario = Prints ''Please clean data first'' \<and>
   analyze_trends scenario = Prints ''Please clean data first'' \<and>
   clean_df (snd (clean_data sample_parsers scenario)) \<noteq> None \<and>
   calculate_conversion_rate (snd (clean_data sample_parsers scenario)) \<noteq>
     Prints ''Please clean data first''"
proof -
  have 1: "df (init ''leads.csv'') = None"
    by (simp add: init_def)
  have 2: "clean_df scenario = None" "df scenario \<noteq> None"
    by (simp_all add: scenario_def session_of_simps)
  from guards_report [of scenario sample_parsers] 2
  have 3: "clean_df (snd (clean_data sample_parsers scenario)) \<noteq> None"
    by blast
  from guards_report [of "init ''leads.csv''" sample_parsers] 1
    guards_report [of scenario] 2
    guards_report [of "snd (clean_data sample_parsers scenario)"] 3
  show ?thesis by simp
qed

text \<open>
  The claim as stated fails after a cleaning call that raised: on \<open>bad_date_session\<close>
  no cleaning call has succeeded, yet \<open>clean_df\<close> is set, \<^verbatim>\<open>calculate_conversion_rate\<close>
  and \<^verbatim>\<open>analyze_by_status\<close> return values of the partly cleaned table without a message,
  and \<^verbatim>\<open>analyze_trends\<close> raises.
\<close>

theorem guards_counterexample:
  "fst (clean_data sample_parsers bad_date_session) = Raises DateParseError \<and>
   clean_df (snd (clean_data sample_parsers bad_date_session)) = Some 1 \<and>
   calculate_conversion_rate (snd (clean_data sample_parsers bad_date_session)) = Returns 0 \<and>
   analyze_by_status (snd (clean_data sample_parsers bad_date_session)) =
     Returns [\<lparr>status_key = ''New'', Count = 1, Percentage = 100\<rparr>] \<and>
   analyze_trends (snd (clean_data sample_parsers bad_date_session)) = Raises AttributeError"
proof -
  let ?a = "snd (clean_data sample_parsers bad_date_session)"
  have c: "clean_df ?a = Some 1"
    by (simp add: bad_date_session_def clean_data_loaded [OF session_of_simps(1)]
        session_of_simps)
  have r0: "raw_table bad_date_session = Some [row_dee]"
    by (simp add: bad_date_session_def raw_table_session_of)
  have "fst (clean_frame sample_parsers [row_dee]) = Raises DateParseError"
    using bad_date_raises by (simp only: cleaned_table_clean_data(1) [OF r0])
  then have "cleaned_table ?a = Some [half_row row_dee]"
    by (simp add: cleaned_table_clean_data(2) [OF r0] clean_frame_date_error)
  then have h: "heap ?a 1 =
      [\<lparr>lead_id = Num 4, name = Str ''Dee'', email = Str ''d@e.org'',
        phone = Str ''Not provided'', source = Str ''Referral'', status = Str ''New'',
        lead_value = Str ''150'', date_added = Str ''next week''\<rparr>]"
    by (simp add: cleaned_table_def c half_row_dee)
  have 1: "calculate_conversion_rate ?a = Returns 0"
    unfolding calculate_conversion_rate_def c option.case h by code_simp
  have 2: "analyze_by_status ?a =
      Returns [\<lparr>status_key = ''New'', Count = 1, Percentage = 100\<rparr>]"
    unfolding analyze_by_status_def c option.case h by code_simp
  have 3: "analyze_trends ?a = Raises AttributeError"
    unfolding analyze_trends_def c option.case h by code_simp
  from bad_date_raises c 1 2 3 show ?thesis by simp
qed

section \<open>Facts about grouping and sorting\<close>

lemma sum_list_insort_key:
  "sum_list (map f (insort_key g x xs)) = f x + sum_list (map f xs)"
  for f :: "'a \<Rightarrow> nat"
  by (induction xs) simp_all

lemma sum_list_sort_key:
  "sum_list (map f (sort_key g xs)) = sum_list (map f xs)"
  for f :: "'a \<Rightarrow> nat"
  by (induction xs) (simp_all add: sum_list_insort_key)

lemma sum_list_sort_desc:
  "sum_list (map f (sort_desc g xs)) = sum_list (map f xs)"
  for f :: "'a \<Rightarrow> nat"
  by (simp add: sort_desc_def sum_list_sort_key)

lemma sorted_sort_desc: "sorted_wrt (\<lambda>x y. f y \<le> f x) (sort_desc f xs)"
proof -
  have "sorted (map (\<lambda>x. - f x) (sort_key (\<lambda>x. - f x) xs))"
    by (rule sorted_sort_key)
  then show ?thesis
    by (simp add: sort_desc_def sorted_map)
qed

lemma sort_desc_Nil: "sort_desc f xs = [] \<longleftrightarrow> xs = []"
proof -
  have "length (sort_desc f xs) = length xs"
    by (simp add: sort_desc_def)
  then show ?thesis by (metis length_0_conv)
qed

lemma set_group_keys: "set (group_keys key t) = {k. \<exists>r\<in>set t. key r = Some k}"
  by (force simp: group_keys_def map_filter_def image_iff)

lemma distinct_group_keys: "distinct (group_keys key t)"
  by (simp add: group_keys_def)

lemma groupby_Nil: "groupby key [] = []"
  by (simp add: groupby_def group_keys_def map_filter_def)

text \<open>
  Claim C3. On an empty cleaned table \<^verbatim>\<open>calculate_conversion_rate\<close> returns 0,
  \<^verbatim>\<open>analyze_by_status\<close> returns an empty table and \<^verbatim>\<open>analyze_trends\<close> a pair of empty
  tables; \<^verbatim>\<open>analyze_by_source\<close> does not return: \<^verbatim>\<open>idxmax\<close> on the empty
  \<^verbatim>\<open>conversion_rate\<close> column raises.
\<close>

theorem empty_table_aggregations:
  assumes "cleaned_table a = Some []"
  shows "calculate_conversion_rate a = Returns 0 \<and>
         analyze_by_status a = Returns [] \<and>
         analyze_trends a = Returns ([], []) \<and>
         analyze_by_source a = Raises ValueError"
proof -
  from assms obtain c where c: "clean_df a = Some c" "heap a c = []"
    by (auto simp: cleaned_table_def)
  then show ?thesis
    by (simp add: calculate_conversion_rate_def analyze_by_status_def analyze_trends_def
        analyze_by_source_def value_counts_def first_seen_def map_filter_def sort_desc_def
        groupby_Nil grouped_rows_def object_values_def)
qed

lemma empty_returns: "fst (clean_data sample_parsers empty_session) = Returns ()"
  unfolding empty_session_def cleaned_table_clean_data(1) [OF raw_table_session_of]
  by code_simp

lemma empty_cleaned: "cleaned_table (snd (clean_data sample_parsers empty_session)) = Some []"
  unfolding empty_session_def cleaned_table_clean_data(2) [OF raw_table_session_of]
  by code_simp

theorem empty_table_aggregations_witness:
  "raw_table empty_session = Some [] \<and>
   fst (clean_data sample_parsers empty_session) = Returns () \<and>
   cleaned_table (snd (clean_data sample_parsers empty_session)) = Some [] \<and>
   calculate_conversion_rate (snd (clean_data sample_parsers empty_session)) = Returns 0 \<and>
   analyze_by_status (snd (clean_data sample_parsers empty_session)) = Returns [] \<and>
   analyze_trends (snd (clean_data sample_parsers empty_session)) = Returns ([], []) \<and>
   analyze_by_source (snd (clean_data sample_parsers empty_session)) = Raises ValueError"
  using empty_table_aggregations [OF empty_cleaned] empty_returns empty_cleaned
  by (simp add: empty_session_def raw_table_session_of)

text \<open>
  Claim C6. A table that \<^verbatim>\<open>analyze_by_source\<close> returns is in descending order of
  \<open>total_value\<close>, and a table that \<^verbatim>\<open>analyze_by_status\<close> returns is in descending order
  of \<open>Count\<close>; \<^verbatim>\<open>analyze_by_status\<close> returns a table whenever a cleaned table is held.
\<close>

theorem results_sorted_descending:
  "(\<forall>stats. analyze_by_source a = Returns stats \<longrightarrow>
      sorted_wrt (\<lambda>x y. total_value y \<le> total_value x) stats) \<and>
   (\<forall>st. analyze_by_status a = Returns st \<longrightarrow>
      sorted_wrt (\<lambda>x y. Count y \<le> Count x) st) \<and>
   (clean_df a \<noteq> None \<longrightarrow> (\<exists>st. analyze_by_status a = Returns st))"
proof (intro conjI allI impI)
  fix stats assume "analyze_by_source a = Returns stats"
  then obtain gs where "stats = sort_desc total_value gs"
    by (auto simp: analyze_by_source_def Let_def split: option.splits if_splits)
  then show "sorted_wrt (\<lambda>x y. total_value y \<le> total_value x) stats"
    by (simp add: sorted_sort_desc)
next
  fix st assume "analyze_by_status a = Returns st"
  then obtain c where st: "map Count st = map snd (value_counts (map status (heap a c)))"
    by (auto simp: analyze_by_status_def status_stat_of_def Let_def comp_def
        split: option.splits)
  have "sorted_wrt (\<lambda>x y. real (snd y) \<le> real (snd x)) (value_counts (map status (heap a c)))"
    unfolding value_counts_def Let_def by (rule sorted_sort_desc)
  then have "sorted_wrt (\<lambda>x y. y \<le> x) (map snd (value_counts (map status (heap a c))))"
    by (simp add: sorted_wrt_map)
  then have "sorted_wrt (\<lambda>x y. y \<le> x) (map Count st)"
    by (simp only: st)
  then show "sorted_wrt (\<lambda>x y. Count y \<le> Count x) st"
    by (simp add: sorted_wrt_map)
next
  assume "clean_df a \<noteq> None"
  then show "\<exists>st. analyze_by_status a = Returns st"
    by (auto simp: analyze_by_status_def Let_def)
qed

lemma ranked_returns: "fst (clean_data sample_parsers ranked_session) = Returns ()"
  unfolding ranked_session_def cleaned_table_clean_data(1) [OF raw_table_session_of]
  by code_simp

lemma ranked_cleaned:
  "cleaned_table (snd (clean_data sample_parsers ranked_session)) =
     Some [\<lparr>lead_id = Num 1, name = Str ''Ann'', email = Str ''a@b.co'',
             phone = Str ''Not provided'', source = Str ''Google'',
             status = Str ''Converted'', lead_value = Num 150,
             date_added = Time 1705276800000000000\<rparr>,
           \<lparr>lead_id = Num 2, name = Str ''Bob'', email = Str ''Invalid email'',
             phone = Str ''555-0100'', source = Str ''Google'',
             status = Str ''New'', lead_value = Num 0,
             date_added = Time 1705363200000000000\<rparr>,
           \<lparr>lead_id = Num 5, name = Str ''Eve'', email = Str ''eve@mail.example.com'',
             phone = Str ''555-0102'', source = Str ''Referral'',
             status = Str ''Converted'', lead_value = Num 900,
             date_added = Time 1705363200000000000\<rparr>]"
  unfolding ranked_session_def cleaned_table_clean_data(2) [OF raw_table_session_of]
  by code_simp

lemma ranked_clean_df: "clean_df (snd (clean_data sample_parsers ranked_session)) = Some 1"
  by (simp add: ranked_session_def clean_data_loaded [OF session_of_simps(1)] session_of_simps)

lemma ranked_heap:
  "heap (snd (clean_data sample_parsers ranked_session)) 1 =
     [\<lparr>lead_id = Num 1, name = Str ''Ann'', email = Str ''a@b.co'',
             phone = Str ''Not provided'', source = Str ''Google'',
             status = Str ''Converted'', lead_value = Num 150,
             date_added = Time 1705276800000000000\<rparr>,
           \<lparr>lead_id = Num 2, name = Str ''Bob'', email = Str ''Invalid email'',
             phone = Str ''555-0100'', source = Str ''Google'',
             status = Str ''New'', lead_value = Num 0,
             date_added = Time 1705363200000000000\<rparr>,
           \<lparr>lead_id = Num 5, name = Str ''Eve'', email = Str ''eve@mail.example.com'',
             phone = Str ''555-0102'', source = Str ''Referral'',
             status = Str ''Converted'', lead_value = Num 900,
             date_added = Time 1705363200000000000\<rparr>]"
  using ranked_cleaned by (simp add: cleaned_table_def ranked_clean_df)

lemma ranked_by_source:
  "analyze_by_source (snd (clean_data sample_parsers ranked_session)) =
     Returns [\<lparr>source_key = ''Referral'', total_leads = 1, total_value = 900, conversions = 1,
                conversion_rate = Fin 100, avg_lead_value = Fin 900\<rparr>,
              \<lparr>source_key = ''Google'', total_leads = 2, total_value = 150, conversions = 1,
                conversion_rate = Fin 50, avg_lead_value = Fin 75\<rparr>]"
  unfolding analyze_by_source_def ranked_clean_df option.case ranked_heap
  by code_simp

lemma ranked_by_status:
  "analyze_by_status (snd (clean_data sample_parsers ranked_session)) =
     Returns [\<lparr>status_key = ''Converted'', Count = 2, Percentage = 4691484174324859 / 70368744177664\<rparr>,
              \<lparr>status_key = ''New'', Count = 1, Percentage = 2345390243441541 / 70368744177664\<rparr>]"
  unfolding analyze_by_status_def ranked_clean_df option.case ranked_heap
  by code_simp

theorem results_sorted_descending_witness:
  "analyze_by_source (snd (clean_data sample_parsers ranked_session)) =
     Returns [\<lparr>source_key = ''Referral'', total_leads = 1, total_value = 900, conversions = 1,
                conversion_rate = Fin 100, avg_lead_value = Fin 900\<rparr>,
              \<lparr>source_key = ''Google'', total_leads = 2, total_value = 150, conversions = 1,
                conversion_rate = Fin 50, avg_lead_value = Fin 75\<rparr>] \<and>
   (150::real) \<le> 900 \<and>
   analyze_by_status (snd (clean_data sample_parsers ranked_session)) =
     Returns [\<lparr>status_key = ''Converted'', Count = 2, Percentage = 4691484174324859 / 70368744177664\<rparr>,
              \<lparr>status_key = ''New'', Count = 1, Percentage = 2345390243441541 / 70368744177664\<rparr>] \<and>
   (1::nat) \<le> 2 \<and>
   clean_df (snd (clean_data sample_parsers ranked_session)) \<noteq> None"
proof -
  from results_sorted_descending [of "snd (clean_data sample_parsers ranked_session)"]
  have "(150::real) \<le> 900"
    by (simp add: ranked_by_source)
  then show ?thesis
    by (simp add: ranked_by_source ranked_by_status ranked_clean_df)
qed

lemma length_filter_disjoint:
  assumes "\<And>x. \<not> (P x \<and> R x)"
  shows "length (filter P xs) + length (filter R xs) = length (filter (\<lambda>x. P x \<or> R x) xs)"
  using assms by (induction xs) auto

lemma sum_group_sizes:
  assumes "distinct ks"
  shows "sum_list (map (\<lambda>k. length (filter (\<lambda>r. key r = Some k \<and> Q r) t)) ks) =
         length (filter (\<lambda>r. (\<exists>k\<in>set ks. key r = Some k) \<and> Q r) t)"
  using assms
proof (induction ks)
  case Nil
  then show ?case by simp
next
  case (Cons k ks)
  have "length (filter (\<lambda>r. key r = Some k \<and> Q r) t) +
        length (filter (\<lambda>r. (\<exists>k\<in>set ks. key r = Some k) \<and> Q r) t) =
        length (filter (\<lambda>r. (key r = Some k \<and> Q r) \<or>
                              ((\<exists>k\<in>set ks. key r = Some k) \<and> Q r)) t)"
    using Cons.prems by (intro length_filter_disjoint) auto
  also have "\<dots> = length (filter (\<lambda>r. (\<exists>k'\<in>set (k # ks). key r = Some k') \<and> Q r) t)"
    by (rule arg_cong [where f = length], rule filter_cong) auto
  finally show ?case
    using Cons by simp
qed

lemma sum_counts_groupby:
  "sum_list (map (\<lambda>kg. count_ids (snd kg)) (groupby key t)) =
   length (filter (\<lambda>r. key r \<noteq> None \<and> \<not> isnull (lead_id r)) t)"
proof -
  have "sum_list (map (\<lambda>kg. count_ids (snd kg)) (groupby key t)) =
        sum_list (map (\<lambda>k. length (filter (\<lambda>r. key r = Some k \<and> \<not> isnull (lead_id r)) t))
          (group_keys key t))"
    by (simp add: groupby_def count_ids_def comp_def conj_commute)
  also have "\<dots> = length (filter (\<lambda>r. (\<exists>k\<in>set (group_keys key t). key r = Some k) \<and>
                                  \<not> isnull (lead_id r)) t)"
    by (rule sum_group_sizes) (rule distinct_group_keys)
  also have "\<dots> = length (filter (\<lambda>r. key r \<noteq> None \<and> \<not> isnull (lead_id r)) t)"
    by (rule arg_cong [where f = length], rule filter_cong) (auto simp: set_group_keys)
  finally show ?thesis .
qed

lemma total_leads_source_stat_of: "total_leads (source_stat_of obj kg) = count_ids (snd kg)"
  by (simp add: source_stat_of_def Let_def)

lemma sum_total_leads:
  assumes "analyze_by_source a = Returns stats" and "clean_df a = Some c"
  shows "sum_list (map total_leads stats) =
         length (filter (\<lambda>r. str_key (source r) \<noteq> None \<and> \<not> isnull (lead_id r)) (heap a c))"
proof -
  from assms have "stats = sort_desc total_value
      (map (source_stat_of (object_values (heap a c)))
         (groupby (\<lambda>r. str_key (source r)) (heap a c)))"
    by (auto simp: analyze_by_source_def Let_def split: if_splits)
  then show ?thesis
    using sum_counts_groupby [of "\<lambda>r. str_key (source r)" "heap a c"]
    by (simp add: sum_list_sort_desc comp_def total_leads_source_stat_of)
qed

lemma sum_value_counts:
  "sum_list (map snd (value_counts col)) = length (filter (\<lambda>c. str_key c \<noteq> None) col)"
proof -
  let ?ks = "List.map_filter str_key col"
  have "sum_list (map snd (value_counts col)) = sum_list (map (count_list ?ks) (first_seen ?ks))"
    by (simp add: value_counts_def Let_def sum_list_sort_desc comp_def)
  also have "\<dots> = sum (count_list ?ks) (set (first_seen ?ks))"
    by (rule sum_list_distinct_conv_sum_set) (simp add: first_seen_def)
  also have "\<dots> = length ?ks"
    by (rule sum_count_set) (simp_all add: first_seen_def)
  also have "\<dots> = length (filter (\<lambda>c. str_key c \<noteq> None) col)"
    by (simp add: map_filter_def)
  finally show ?thesis .
qed

lemma sum_Count:
  assumes "analyze_by_status a = Returns st" and "clean_df a = Some c"
  shows "sum_list (map Count st) =
         length (filter (\<lambda>r. str_key (status r) \<noteq> None) (heap a c))"
proof -
  from assms have "map Count st = map snd (value_counts (map status (heap a c)))"
    by (auto simp: analyze_by_status_def status_stat_of_def Let_def comp_def)
  then show ?thesis
    by (simp add: sum_value_counts filter_map comp_def)
qed

lemma str_key_str_map: "str_key (str_map f c) \<noteq> None \<longleftrightarrow> \<not> isnull (str_map f c)"
  by (cases c) (simp_all add: isnull_def)

lemma source_clean_row:
  "source (clean_row P r) = str_map py_title (str_map py_strip (source r))"
  by (simp add: clean_row_def half_row_def)

lemma status_clean_row:
  "status (clean_row P r) = str_map py_title (str_map py_strip (status r))"
  by (simp add: clean_row_def half_row_def)

lemma clean_data_returns:
  assumes "raw_table a = Some t" and "fst (clean_data P a) = Returns ()"
  shows "clean_df (snd (clean_data P a)) = Some (next_ref a)"
    and "heap (snd (clean_data P a)) (next_ref a) = map (clean_row P) t"
  using assms by (auto simp: raw_table_def clean_data_loaded clean_frame_returns)

text \<open>
  Claim C5, as the code has it. After a cleaning call that returns, the \<open>total_leads\<close> of
  a table that \<^verbatim>\<open>analyze_by_source\<close> returns add up to the number of cleaned rows whose
  \<open>source\<close> and \<open>lead_id\<close> are both present, and the \<open>Count\<close> of the table that
  \<^verbatim>\<open>analyze_by_status\<close> returns add up to the number of cleaned rows whose \<open>status\<close> is
  present. Each sum is the number of all rows when no such value is missing.
\<close>

theorem group_sums:
  assumes "raw_table a = Some t" and "fst (clean_data P a) = Returns ()"
  shows "\<exists>t'. cleaned_table (snd (clean_data P a)) = Some t' \<and>
           (\<forall>stats. analyze_by_source (snd (clean_data P a)) = Returns stats \<longrightarrow>
              sum_list (map total_leads stats) =
                length (filter (\<lambda>r. \<not> isnull (source r) \<and> \<not> isnull (lead_id r)) t') \<and>
              ((\<forall>r\<in>set t'. \<not> isnull (source r) \<and> \<not> isnull (lead_id r)) \<longrightarrow>
                 sum_list (map total_leads stats) = length t')) \<and>
           (\<exists>st. analyze_by_status (snd (clean_data P a)) = Returns st \<and>
              sum_list (map Count st) = length (filter (\<lambda>r. \<not> isnull (status r)) t') \<and>
              ((\<forall>r\<in>set t'. \<not> isnull (status r)) \<longrightarrow> sum_list (map Count st) = length t'))"
proof -
  let ?a = "snd (clean_data P a)"
  define t' where "t' = map (clean_row P) t"
  note c = clean_data_returns [OF assms, folded t'_def]
  have t': "cleaned_table ?a = Some t'"
    by (simp add: cleaned_table_def c)
  have src: "length (filter (\<lambda>r. str_key (source r) \<noteq> None \<and> \<not> isnull (lead_id r)) t') =
             length (filter (\<lambda>r. \<not> isnull (source r) \<and> \<not> isnull (lead_id r)) t')"
    unfolding t'_def
    by (rule arg_cong [where f = length], rule filter_cong)
      (use str_key_str_map source_clean_row in force)+
  have sts: "length (filter (\<lambda>r. str_key (status r) \<noteq> None) t') =
             length (filter (\<lambda>r. \<not> isnull (status r)) t')"
    unfolding t'_def
    by (rule arg_cong [where f = length], rule filter_cong)
      (use str_key_str_map status_clean_row in force)+
  have 1: "sum_list (map total_leads stats) =
             length (filter (\<lambda>r. \<not> isnull (source r) \<and> \<not> isnull (lead_id r)) t')"
    if "analyze_by_source ?a = Returns stats" for stats
    using sum_total_leads [OF that c(1)] src by (simp only: c)
  obtain st where st: "analyze_by_status ?a = Returns st"
    by (auto simp: analyze_by_status_def Let_def c)
  have 2: "sum_list (map Count st) = length (filter (\<lambda>r. \<not> isnull (status r)) t')"
    using sum_Count [OF st c(1)] sts by (simp only: c)
  have 3: "sum_list (map total_leads stats) = length t'"
    if "analyze_by_source ?a = Returns stats"
      and "\<forall>r\<in>set t'. \<not> isnull (source r) \<and> \<not> isnull (lead_id r)" for stats
    using 1 [OF that(1)] that(2) by simp
  have 4: "sum_list (map Count st) = length t'" if "\<forall>r\<in>set t'. \<not> isnull (status r)"
    using 2 that by simp
  from t' 1 2 3 4 st show ?thesis
    by blast
qed

lemma gap_clean_df: "clean_df (snd (clean_data sample_parsers gap_session)) = Some 1"
  by (simp add: gap_session_def clean_data_loaded [OF session_of_simps(1)] session_of_simps)

lemma gap_by_source:
  "analyze_by_source (snd (clean_data sample_parsers gap_session)) =
     Returns [\<lparr>source_key = ''Google'', total_leads = 2, total_value = 150, conversions = 1,
                conversion_rate = Fin 50, avg_lead_value = Fin 75\<rparr>]"
proof -
  have "heap (snd (clean_data sample_parsers gap_session)) 1 =
      the (cleaned_table (snd (clean_data sample_parsers gap_session)))"
    by (simp add: cleaned_table_def gap_clean_df)
  then show ?thesis
    unfolding analyze_by_source_def gap_clean_df option.case gap_cleaned option.sel
    by (simp only:) code_simp
qed

lemma gap_by_status:
  "analyze_by_status (snd (clean_data sample_parsers gap_session)) =
     Returns [\<lparr>status_key = ''Converted'', Count = 1, Percentage = 2345390243441541 / 70368744177664\<rparr>,
              \<lparr>status_key = ''New'', Count = 1, Percentage = 2345390243441541 / 70368744177664\<rparr>]"
proof -
  have "heap (snd (clean_data sample_parsers gap_session)) 1 =
      the (cleaned_table (snd (clean_data sample_parsers gap_session)))"
    by (simp add: cleaned_table_def gap_clean_df)
  then show ?thesis
    unfolding analyze_by_status_def gap_clean_df option.case gap_cleaned option.sel
    by (simp only:) code_simp
qed

theorem group_sums_witness:
  "raw_table ranked_session = Some [row_ann, row_bob, row_eve] \<and>
   fst (clean_data sample_parsers ranked_session) = Returns () \<and>
   map_option length (cleaned_table (snd (clean_data sample_parsers ranked_session))) = Some 3 \<and>
   map_option (sum_list \<circ> map total_leads)
     (returned (analyze_by_source (snd (clean_data sample_parsers ranked_session)))) = Some 3 \<and>
   map_option (sum_list \<circ> map Count)
     (returned (analyze_by_status (snd (clean_data sample_parsers ranked_session)))) = Some 3"
proof -
  have r: "raw_table ranked_session = Some [row_ann, row_bob, row_eve]"
    by (simp add: ranked_session_def raw_table_session_of)
  from group_sums [OF r ranked_returns]
  have "map_option (sum_list \<circ> map total_leads)
     (returned (analyze_by_source (snd (clean_data sample_parsers ranked_session)))) = Some 3"
    by (auto simp: ranked_cleaned ranked_by_source isnull_def)
  then show ?thesis
    using r by (simp add: ranked_returns ranked_cleaned ranked_by_status)
qed

text \<open>
  The claim as stated fails on the cleaned table of \<open>gap_session\<close>: it has three rows,
  one without source and status, and both sums are 2.
\<close>

theorem group_sums_counterexample:
  "fst (clean_data sample_parsers gap_session) = Returns () \<and>
   map_option length (cleaned_table (snd (clean_data sample_parsers gap_session))) = Some 3 \<and>
   map_option (sum_list \<circ> map total_leads)
     (returned (analyze_by_source (snd (clean_data sample_parsers gap_session)))) = Some 2 \<and>
   map_option (sum_list \<circ> map Count)
     (returned (analyze_by_status (snd (clean_data sample_parsers gap_session)))) = Some 2"
  by (simp add: gap_returns gap_cleaned gap_by_source gap_by_status)

lemma map_filter_filter:
  assumes "\<forall>x\<in>set xs. \<not> P x \<longrightarrow> f x = None"
  shows "List.map_filter f (filter P xs) = List.map_filter f xs"
  using assms by (induction xs) (auto split: option.splits)

lemma map_filter_of_map: "List.map_filter f (map g xs) = List.map_filter (\<lambda>x. f (g x)) xs"
  by (induction xs) (simp_all split: option.splits)

lemma groupby_filter:
  assumes "\<forall>r\<in>set t. \<not> P r \<longrightarrow> key r = None"
  shows "groupby key (filter P t) = groupby key t"
proof -
  have "filter (\<lambda>r. key r = Some k) (filter P t) = filter (\<lambda>r. key r = Some k) t" for k
    unfolding filter_filter using assms by (intro filter_cong) auto
  then show ?thesis
    by (simp add: groupby_def group_keys_def map_filter_filter [OF assms] del: filter_filter)
qed

lemma value_counts_filter:
  assumes "\<forall>r\<in>set t. \<not> P r \<longrightarrow> str_key (status r) = None"
  shows "value_counts (map status (filter P t)) = value_counts (map status t)"
  using map_filter_filter [OF assms]
  by (simp add: value_counts_def map_filter_of_map Let_def)

lemma isnull_no_key: "isnull c \<Longrightarrow> str_key c = None"
  by (auto simp: isnull_def)

lemma not_object_values_cleaned: "\<not> object_values (filter Q (map (clean_row P) t))"
proof -
  have "\<not> is_str (lead_value (clean_row P r))" for r
    by (cases "lead_value r")
      (simp_all add: clean_row_def fillna_def isnull_def split: option.splits)
  then show ?thesis
    by (auto simp: object_values_def list_ex_iff)
qed

lemma clean_row_missing:
  "isnull (source r) \<Longrightarrow> source (clean_row P r) = NaN"
  "isnull (status r) \<Longrightarrow> status (clean_row P r) = NaN"
  "isnull (name r) \<Longrightarrow> name (clean_row P r) = NaN"
  "isnull (date_added r) \<Longrightarrow> date_added (clean_row P r) = NaT"
  "isnull (phone r) \<Longrightarrow> phone (clean_row P r) = Str ''Not provided''"
  "isnull (email r) \<Longrightarrow> email (clean_row P r) = Str ''Invalid email''"
  "isnull (lead_value r) \<Longrightarrow> lead_value (clean_row P r) = Num 0"
  by (auto simp: clean_row_def half_row_def isnull_def fillna_def convert_date_def
      not_provided_invalid)

lemma percentages_of_counts:
  assumes "analyze_by_status a = Returns st" and "clean_df a = Some c"
  shows "map Percentage st = map (\<lambda>n. percentage n (length (heap a c))) (map Count st)"
  using assms by (auto simp: analyze_by_status_def status_stat_of_def Let_def comp_def)

text \<open>
  Claim C10, as the code has it. A cleaning call that returns fills a missing phone
  (\<open>Not provided\<close>), a missing e-mail (filled, then \<open>Invalid email\<close>) and a missing
  \<open>lead_value\<close> (0); a missing \<open>source\<close>, \<open>status\<close> or \<open>name\<close> stays missing, a missing
  date stays missing (\<open>NaT\<close>), and \<open>lead_id\<close> is untouched. The rows without a source
  do not count in \<^verbatim>\<open>analyze_by_source\<close>: its outcome is the same on the cleaned table
  without them. The rows without a status are in no group of \<^verbatim>\<open>analyze_by_status\<close> and
  in no \<open>Count\<close>: it returns the same labels and counts on the cleaned table without
  them; but they stay in the divisor of every \<open>Percentage\<close>, which is the count over the
  number of all rows of the cleaned table.
\<close>

theorem missing_stay_missing:
  assumes "raw_table a = Some t" and "fst (clean_data P a) = Returns ()"
  shows "\<exists>t'. cleaned_table (snd (clean_data P a)) = Some t' \<and> length t' = length t \<and>
           (\<forall>i<length t.
              (isnull (phone (t ! i)) \<longrightarrow> phone (t' ! i) = Str ''Not provided'') \<and>
              (isnull (email (t ! i)) \<longrightarrow> email (t' ! i) = Str ''Invalid email'') \<and>
              (isnull (lead_value (t ! i)) \<longrightarrow> lead_value (t' ! i) = Num 0) \<and>
              (isnull (source (t ! i)) \<longrightarrow> source (t' ! i) = NaN) \<and>
              (isnull (status (t ! i)) \<longrightarrow> status (t' ! i) = NaN) \<and>
              (isnull (name (t ! i)) \<longrightarrow> name (t' ! i) = NaN) \<and>
              (isnull (date_added (t ! i)) \<longrightarrow> date_added (t' ! i) = NaT) \<and>
              lead_id (t' ! i) = lead_id (t ! i)) \<and>
           analyze_by_source
             (with_cleaned (filter (\<lambda>r. \<not> isnull (source r)) t') (snd (clean_data P a))) =
             analyze_by_source (snd (clean_data P a)) \<and>
           (\<exists>st st'. analyze_by_status (snd (clean_data P a)) = Returns st \<and>
              analyze_by_status
                (with_cleaned (filter (\<lambda>r. \<not> isnull (status r)) t') (snd (clean_data P a))) =
                Returns st' \<and>
              map status_key st' = map status_key st \<and> map Count st' = map Count st \<and>
              map Percentage st = map (\<lambda>n. percentage n (length t')) (map Count st) \<and>
              map Percentage st' =
                map (\<lambda>n. percentage n (length (filter (\<lambda>r. \<not> isnull (status r)) t')))
                  (map Count st'))"
proof -
  let ?a = "snd (clean_data P a)"
  define t' where "t' = map (clean_row P) t"
  note c = clean_data_returns [OF assms, folded t'_def]
  have 1: "cleaned_table ?a = Some t'"
    by (simp add: cleaned_table_def c)
  have 2: "length t' = length t"
    by (simp add: t'_def)
  have 3: "(isnull (phone (t ! i)) \<longrightarrow> phone (t' ! i) = Str ''Not provided'') \<and>
           (isnull (email (t ! i)) \<longrightarrow> email (t' ! i) = Str ''Invalid email'') \<and>
           (isnull (lead_value (t ! i)) \<longrightarrow> lead_value (t' ! i) = Num 0) \<and>
           (isnull (source (t ! i)) \<longrightarrow> source (t' ! i) = NaN) \<and>
           (isnull (status (t ! i)) \<longrightarrow> status (t' ! i) = NaN) \<and>
           (isnull (name (t ! i)) \<longrightarrow> name (t' ! i) = NaN) \<and>
           (isnull (date_added (t ! i)) \<longrightarrow> date_added (t' ! i) = NaT) \<and>
           lead_id (t' ! i) = lead_id (t ! i)" if "i < length t" for i
    using that by (simp add: t'_def clean_row_missing lead_id_clean_row)
  have obj: "\<not> object_values (filter Q t')" for Q
    unfolding t'_def by (rule not_object_values_cleaned)
  from obj [of "\<lambda>r. True"] have obj': "\<not> object_values t'"
    by simp
  have g: "groupby (\<lambda>r. str_key (source r)) (filter (\<lambda>r. \<not> isnull (source r)) t') =
           groupby (\<lambda>r. str_key (source r)) t'"
    by (rule groupby_filter) (simp add: isnull_no_key)
  have 4: "analyze_by_source (with_cleaned (filter (\<lambda>r. \<not> isnull (source r)) t') ?a) =
           analyze_by_source ?a"
    using obj [of "\<lambda>r. str_key (source r) \<noteq> None"]
      obj [of "\<lambda>r. \<not> isnull (source r) \<and> str_key (source r) \<noteq> None"]
      obj [of "\<lambda>r. \<not> isnull (source r)"]
    by (simp add: analyze_by_source_def with_cleaned_def c g obj' grouped_rows_def conj_commute)
  have v: "value_counts (map status (filter (\<lambda>r. \<not> isnull (status r)) t')) =
           value_counts (map status t')"
    by (rule value_counts_filter) (simp add: isnull_no_key)
  let ?b = "with_cleaned (filter (\<lambda>r. \<not> isnull (status r)) t') ?a"
  have cb: "clean_df ?b = Some (next_ref a)"
    "heap ?b (next_ref a) = filter (\<lambda>r. \<not> isnull (status r)) t'"
    by (simp_all add: with_cleaned_def c)
  obtain st where st: "analyze_by_status ?a = Returns st"
    by (auto simp: analyze_by_status_def Let_def c)
  obtain st' where st': "analyze_by_status ?b = Returns st'"
    by (auto simp: analyze_by_status_def Let_def cb)
  from st st' have 5: "map status_key st' = map status_key st" "map Count st' = map Count st"
    by (auto simp: analyze_by_status_def status_stat_of_def Let_def c cb v comp_def)
  have 6: "map Percentage st = map (\<lambda>n. percentage n (length t')) (map Count st)"
    using percentages_of_counts [OF st c(1)] by (simp only: c)
  have 7: "map Percentage st' =
      map (\<lambda>n. percentage n (length (filter (\<lambda>r. \<not> isnull (status r)) t'))) (map Count st')"
    using percentages_of_counts [OF st' cb(1)] by (simp only: cb)
  from 1 2 3 4 5 6 7 st st' show ?thesis
    by blast
qed

theorem missing_stay_missing_witness:
  "raw_table gap_session = Some [row_ann, row_bob, row_cy] \<and>
   fst (clean_data sample_parsers gap_session) = Returns () \<and>
   isnull (source row_cy) \<and> isnull (status row_cy) \<and> isnull (email row_cy) \<and>
   isnull (phone row_ann) \<and> isnull (lead_value row_bob) \<and>
   map_option (map source) (cleaned_table (snd (clean_data sample_parsers gap_session))) =
     Some [Str ''Google'', Str ''Google'', NaN] \<and>
   map_option (map status) (cleaned_table (snd (clean_data sample_parsers gap_session))) =
     Some [Str ''Converted'', Str ''New'', NaN] \<and>
   map_option (map total_leads)
     (returned (analyze_by_source (snd (clean_data sample_parsers gap_session)))) = Some [2] \<and>
   map_option (map Count)
     (returned (analyze_by_status (snd (clean_data sample_parsers gap_session)))) = Some [1, 1]"
proof -
  have r: "raw_table gap_session = Some [row_ann, row_bob, row_cy]"
    by (simp add: gap_session_def raw_table_session_of)
  have n: "isnull (source row_cy) \<and> isnull (status row_cy) \<and> isnull (email row_cy) \<and>
           isnull (phone row_ann) \<and> isnull (lead_value row_bob)"
    by (simp add: row_cy_def row_ann_def row_bob_def isnull_def)
  from missing_stay_missing [OF r gap_returns] n
  have "map_option (map source) (cleaned_table (snd (clean_data sample_parsers gap_session))) =
     Some [Str ''Google'', Str ''Google'', NaN]"
    by (auto simp: gap_cleaned)
  then show ?thesis
    using r n by (simp add: gap_returns gap_cleaned gap_by_source gap_by_status)
qed

text \<open>
  The claim as stated fails for the status: on the cleaned table of \<open>gap_session\<close>, whose
  third row has no status, \<^verbatim>\<open>analyze_by_status\<close> gives 33.33 to each of the two groups;
  on the same table without that row it gives 50. The row is counted in the divisor.
\<close>

theorem missing_status_counterexample:
  "fst (clean_data sample_parsers gap_session) = Returns () \<and>
   map_option (map status) (cleaned_table (snd (clean_data sample_parsers gap_session))) =
     Some [Str ''Converted'', Str ''New'', NaN] \<and>
   map_option (map Percentage)
     (returned (analyze_by_status (snd (clean_data sample_parsers gap_session)))) =
     Some [2345390243441541 / 70368744177664, 2345390243441541 / 70368744177664] \<and>
   map_option (map status)
     (cleaned_table (drop_missing_status (snd (clean_data sample_parsers gap_session)))) =
     Some [Str ''Converted'', Str ''New''] \<and>
   map_option (map Percentage)
     (returned (analyze_by_status
        (drop_missing_status (snd (clean_data sample_parsers gap_session))))) =
     Some [50, 50]"
proof -
  let ?a = "snd (clean_data sample_parsers gap_session)"
  have h: "heap ?a 1 = the (cleaned_table ?a)"
    by (simp add: cleaned_table_def gap_clean_df)
  have d: "clean_df (drop_missing_status ?a) = Some 1"
    by (simp add: drop_missing_status_def with_cleaned_def gap_clean_df)
  have t: "heap (drop_missing_status ?a) 1 = filter has_status (the (cleaned_table ?a))"
    by (simp add: drop_missing_status_def with_cleaned_def gap_clean_df cleaned_table_def)
  have 1: "map_option (map status) (cleaned_table (drop_missing_status ?a)) =
      Some [Str ''Converted'', Str ''New'']"
    unfolding cleaned_table_def d option.map t gap_cleaned option.sel by code_simp
  have 2: "map_option (map Percentage) (returned (analyze_by_status (drop_missing_status ?a))) =
      Some [50, 50]"
    unfolding analyze_by_status_def d option.case t gap_cleaned option.sel by code_simp
  from 1 2 show ?thesis
    by (simp add: gap_returns gap_cleaned gap_by_status)
qed

end
